theory Spec2Isabelle
  imports Main
begin

section \<open>JavaScript values and the process environment\<close>

text \<open>
  A JavaScript string is the list of its UTF-16 code units, each a number below 65536.
  \<open>lit\<close> turns an ASCII literal into such a string.
\<close>

type_synonym jsstring = "nat list"

definition lit :: "string \<Rightarrow> jsstring" where
  "lit s = map of_char s"

text \<open>
  The fields of a request body are JSON scalars; \<open>JUndefined\<close> stands for a field that
  the body does not have. A number is given by the text that JavaScript prints for it
  (\<open>String(n)\<close>: \<open>20\<close>, \<open>-1\<close>, \<open>2.5\<close>, \<open>1e+21\<close>): the validators and \<open>parseInt\<close> read a
  number of the body through that text only. Field values that are arrays or objects
  are outside this model.
\<close>

datatype jsvalue = JUndefined | JNull | JBool bool | JNumber jsstring | JString jsstring

text \<open>
  A number that the service computes with \<open>parseInt\<close>: an integer (one that is a
  double), an infinity or \<open>NaN\<close>.
\<close>

datatype jsnum = Num int | PosInfinity | NegInfinity | NaN

text \<open>
  \<open>a || b\<close> on an optional number: the left operand is taken when it is truthy, that
  is present and different from zero.
\<close>

definition js_or :: "int option \<Rightarrow> int \<Rightarrow> int" where
  "js_or a b = (case a of None \<Rightarrow> b | Some n \<Rightarrow> if n \<noteq> 0 then n else b)"

text \<open>\<open>process.env\<close>, and \<open>process.env.KEY || default\<close> (the empty string is falsy).\<close>

type_synonym env = "string \<Rightarrow> jsstring option"

definition env_or :: "env \<Rightarrow> string \<Rightarrow> jsstring \<Rightarrow> jsstring" where
  "env_or e k d = (case e k of None \<Rightarrow> d | Some v \<Rightarrow> if v = [] then d else v)"

definition GLOBAL_INDEX :: "env \<Rightarrow> jsstring" where
  "GLOBAL_INDEX e = env_or e ''GLOBAL_INDEX'' (lit ''colmado_inventory'')"

definition LOCAL_INDEX_PREFIX :: "env \<Rightarrow> jsstring" where
  "LOCAL_INDEX_PREFIX e = env_or e ''LOCAL_INDEX_PREFIX'' (lit ''productos_colmado_'')"

text \<open>The coercion of a template literal and of \<open>parseInt\<close>'s argument: \<open>String(value)\<close>.\<close>

fun js_ToString :: "jsvalue \<Rightarrow> jsstring" where
  "js_ToString JUndefined = lit ''undefined''"
| "js_ToString JNull = lit ''null''"
| "js_ToString (JBool b) = (if b then lit ''true'' else lit ''false'')"
| "js_ToString (JNumber n) = n"
| "js_ToString (JString s) = s"

section \<open>Errors and thrown values\<close>

text \<open>
  An error object without a status: its message and its stack. Such are the errors of
  the search engine client (it wraps every failure of a call, also a gateway's answer,
  in an error of its own that has neither \<open>statusCode\<close> nor \<open>status\<close>) and the
  \<open>TypeError\<close> of the runtime.
\<close>

record plain_error =
  message :: string
  stack :: string

text \<open>
  An error object as \<open>errorHandler\<close> reads it: with the optional numeric \<open>statusCode\<close>
  and \<open>status\<close> properties, which the errors of the body parser carry.
\<close>

record js_error = plain_error +
  statusCode :: "int option"
  status :: "int option"

definition without_status :: "plain_error \<Rightarrow> js_error" where
  "without_status err =
     \<lparr>message = message err, stack = stack err, statusCode = None, status = None\<rparr>"

text \<open>
  What a call of the engine client can throw (reject with): an error object, or
  \<open>null\<close> or \<open>undefined\<close> in its place.
\<close>

datatype nullish = Null | Undefined

datatype thrown = Thrown_nullish nullish | Thrown_error plain_error

text \<open>
  Reading a property of \<open>null\<close> or \<open>undefined\<close> throws a \<open>TypeError\<close>. Of its stack the
  model keeps the first line.
\<close>

definition type_error_message :: "nullish \<Rightarrow> string \<Rightarrow> string" where
  "type_error_message v p =
     ''Cannot read properties of '' @
     (case v of Null \<Rightarrow> ''null'' | Undefined \<Rightarrow> ''undefined'') @
     '' (reading '' @ [CHR 0x27] @ p @ [CHR 0x27] @ '')''"

definition type_error :: "nullish \<Rightarrow> string \<Rightarrow> plain_error" where
  "type_error v p =
     \<lparr>message = type_error_message v p, stack = ''TypeError: '' @ type_error_message v p\<rparr>"

section \<open>The search engine client\<close>

text \<open>
  The engine's answer to a search: the array of hits (opaque records, always present),
  the estimated total when the engine reports one, and the processing time.
\<close>

record 'h search_response =
  res_hits :: "'h list"
  estimatedTotalHits :: "int option"
  res_processingTimeMs :: int

text \<open>
  \<open>meilisearchClient.index(name).search(query, {limit, offset})\<close>: the call throws or
  returns a response. \<open>index(name)\<close> itself only builds a handle. The engine is a
  function of the call: between the calls of one run its data does not change.
\<close>

type_synonym ('q, 'h) engine =
  "jsstring \<Rightarrow> 'q \<Rightarrow> jsnum \<Rightarrow> jsnum \<Rightarrow> thrown + 'h search_response"

text \<open>What a run does besides returning: the engine calls it issues and the log lines.\<close>

datatype level = Debug | Info | Warn | Error

datatype 'q event =
    Search jsstring 'q jsnum jsnum
  | Health
  | Log level string

fun is_search :: "'q event \<Rightarrow> bool" where
  "is_search (Search i q l off) = True"
| "is_search Health = False"
| "is_search (Log lv m) = False"

section \<open>The fallback decision: \<open>searchWithFallback\<close>\<close>

datatype source = Local | Global

record ('q, 'h) search_result =
  source :: source
  indexName :: jsstring
  hits :: "'h list"
  total_hits :: int
  query :: 'q
  limit :: jsnum
  offset :: jsnum
  processingTimeMs :: int

text \<open>\<open>results.estimatedTotalHits || results.hits.length\<close>\<close>

definition total_of :: "'h search_response \<Rightarrow> int" where
  "total_of r = js_or (estimatedTotalHits r) (int (length (res_hits r)))"

definition build_result ::
  "source \<Rightarrow> jsstring \<Rightarrow> 'h search_response \<Rightarrow> 'q \<Rightarrow> jsnum \<Rightarrow> jsnum \<Rightarrow>
     ('q, 'h) search_result" where
  "build_result src name r q l off =
     \<lparr>source = src, indexName = name, hits = res_hits r, total_hits = total_of r,
      query = q, limit = l, offset = off, processingTimeMs = res_processingTimeMs r\<rparr>"

text \<open>
  Step 2 of \<open>searchWithFallback\<close>: the search in the global index. The outer \<open>catch\<close>
  logs the failure with \<open>error.message\<close> and throws the error again as it is. When the
  thrown value is \<open>null\<close> or \<open>undefined\<close>, reading \<open>error.message\<close> throws before anything is
  logged, and the \<open>TypeError\<close> leaves the function.
\<close>

definition global_step ::
  "env \<Rightarrow> ('q, 'h) engine \<Rightarrow> 'q \<Rightarrow> jsnum \<Rightarrow> jsnum \<Rightarrow>
     (plain_error + ('q, 'h) search_result) \<times> 'q event list" where
  "global_step e eng q l off =
     (case eng (GLOBAL_INDEX e) q l off of
        Inl error \<Rightarrow>
          (case error of
             Thrown_error err \<Rightarrow>
               (Inl err, [Search (GLOBAL_INDEX e) q l off, Log Error ''Search failed''])
           | Thrown_nullish v \<Rightarrow>
               (Inl (type_error v ''message''), [Search (GLOBAL_INDEX e) q l off]))
      | Inr globalResults \<Rightarrow>
          (Inr (build_result Global (GLOBAL_INDEX e) globalResults q l off),
           [Search (GLOBAL_INDEX e) q l off, Log Info ''Global search completed'']))"

text \<open>A parameter with a default value: \<open>undefined\<close> (\<open>None\<close>) takes the default.\<close>

definition param_default :: "jsnum option \<Rightarrow> int \<Rightarrow> jsnum" where
  "param_default a d = (case a of None \<Rightarrow> Num d | Some n \<Rightarrow> n)"

text \<open>
  \<open>searchWithFallback(query, slug, limit = 20, offset = 0)\<close>. The result is what is
  returned or the thrown error, with the events of the run in order. The inner \<open>catch\<close>
  logs the local failure with \<open>localError.message\<close> and falls through to step 2; when the
  thrown value is \<open>null\<close> or \<open>undefined\<close>, that reading throws a \<open>TypeError\<close>, which the outer
  \<open>catch\<close> logs and throws again, and step 2 is not reached.
\<close>

definition searchWithFallback ::
  "env \<Rightarrow> ('q, 'h) engine \<Rightarrow> 'q \<Rightarrow> jsvalue \<Rightarrow> jsnum option \<Rightarrow> jsnum option \<Rightarrow>
     (plain_error + ('q, 'h) search_result) \<times> 'q event list" where
  "searchWithFallback e eng q slug limit_arg offset_arg =
     (let l = param_default limit_arg 20;
          off = param_default offset_arg 0;
          localIndexName = LOCAL_INDEX_PREFIX e @ js_ToString slug;
          start = [Log Info ''Search request'', Search localIndexName q l off]
      in case eng localIndexName q l off of
           Inr localResults \<Rightarrow>
             if res_hits localResults \<noteq> [] then
               (Inr (build_result Local localIndexName localResults q l off),
                start @ [Log Info ''Local search completed''])
             else
               (case global_step e eng q l off of
                  (out, evs) \<Rightarrow>
                    (out, start @ [Log Info ''Local search completed'',
                       Log Info ''No results in local index, falling back to global''] @ evs))
         | Inl localError \<Rightarrow>
             (case localError of
                Thrown_error err \<Rightarrow>
                  (case global_step e eng q l off of
                     (out, evs) \<Rightarrow>
                       (out, start @
                          [Log Warn ''Local index search failed, falling back to global'']
                          @ evs))
              | Thrown_nullish v \<Rightarrow>
                  (Inl (type_error v ''message''), start @ [Log Error ''Search failed''])))"

section \<open>The health check: \<open>healthCheck\<close>\<close>

text \<open>
  \<open>healthCheck()\<close>. The argument is the outcome of \<open>meilisearchClient.health()\<close>: what is
  thrown or the engine's health report, given by its \<open>status\<close> field. The function's own
  outcome is again a sum: \<open>Inl\<close> is a throw. The \<open>catch\<close> block reads \<open>error.message\<close>
  for its log line, which throws when the thrown value is \<open>null\<close> or \<open>undefined\<close>.
\<close>

datatype health_status =
    Healthy string
  | Unhealthy string

definition healthCheck ::
  "thrown + string \<Rightarrow> (plain_error + health_status) \<times> 'q event list" where
  "healthCheck out =
     (case out of
        Inr health \<Rightarrow> (Inr (Healthy health), [Health, Log Debug ''Meilisearch health check''])
      | Inl error \<Rightarrow>
          (case error of
             Thrown_error err \<Rightarrow>
               (Inr (Unhealthy (message err)),
                [Health, Log Error ''Meilisearch health check failed''])
           | Thrown_nullish v \<Rightarrow> (Inl (type_error v ''message''), [Health])))"

section \<open>Request validation\<close>

subsection \<open>Strings: trimming, the slug pattern, integer literals\<close>

text \<open>
  The white space that \<open>trim\<close> (the class \<open>\s\<close> of a regular expression) and \<open>parseInt\<close>
  strip: tab, line feed, vertical tab, form feed, carriage return, space, no-break
  space, U+1680, U+2000 to U+200A, the line and paragraph separators U+2028 and U+2029,
  U+202F, U+205F, U+3000 and the byte order mark U+FEFF.
\<close>

definition is_space :: "nat \<Rightarrow> bool" where
  "is_space c =
     (c \<in> set [0x09, 0x0A, 0x0B, 0x0C, 0x0D, 0x20, 0xA0, 0x1680, 0x2028, 0x2029, 0x202F,
               0x205F, 0x3000, 0xFEFF]
      \<or> (0x2000 \<le> c \<and> c \<le> 0x200A))"

definition trim :: "jsstring \<Rightarrow> jsstring" where
  "trim s = rev (dropWhile is_space (rev (dropWhile is_space s)))"

text \<open>The regular expression \<open>/^[a-z0-9_-]+$/\<close>.\<close>

definition slug_char :: "nat \<Rightarrow> bool" where
  "slug_char c = (c \<in> set (lit ''abcdefghijklmnopqrstuvwxyz0123456789_-''))"

definition slug_pattern :: "jsstring \<Rightarrow> bool" where
  "slug_pattern s = (s \<noteq> [] \<and> list_all slug_char s)"

definition is_digit :: "nat \<Rightarrow> bool" where
  "is_digit c = (c \<in> set (lit ''0123456789''))"

definition digit_val :: "nat \<Rightarrow> nat" where
  "digit_val c = c - 48"

definition digits_value :: "jsstring \<Rightarrow> nat" where
  "digits_value ds = foldl (\<lambda>a c. 10 * a + digit_val c) 0 ds"

text \<open>
  The validator's integer test \<open>/^[-+]?[0-9]+$/\<close>, with the integer that the string then
  stands for. The comparisons with \<open>min\<close> and \<open>max\<close> convert the string to a double; the
  bounds are small integers and the conversion is monotone, so that the comparisons come
  out as on the integer itself.
\<close>

definition unsigned_literal :: "jsstring \<Rightarrow> int option" where
  "unsigned_literal ds =
     (if ds \<noteq> [] \<and> list_all is_digit ds then Some (int (digits_value ds)) else None)"

fun int_literal :: "jsstring \<Rightarrow> int option" where
  "int_literal [] = None"
| "int_literal (c # cs) =
     (if [c] = lit ''-'' then map_option uminus (unsigned_literal cs)
      else if [c] = lit ''+'' then unsigned_literal cs
      else unsigned_literal (c # cs))"

definition isInt_string :: "int option \<Rightarrow> int option \<Rightarrow> jsstring \<Rightarrow> bool" where
  "isInt_string mn mx s =
     (case int_literal s of
        None \<Rightarrow> False
      | Some v \<Rightarrow>
          (case mn of None \<Rightarrow> True | Some m \<Rightarrow> m \<le> v) \<and>
          (case mx of None \<Rightarrow> True | Some m \<Rightarrow> v \<le> m))"

text \<open>
  The double nearest to a natural number: the number itself below \<open>2^53\<close>; beyond,
  the number rounded to 53 significant bits, a tie going to the even significand;
  \<open>None\<close> (infinity) when the rounded number reaches \<open>2^1024\<close>.
\<close>

fun bitlen :: "nat \<Rightarrow> nat" where
  "bitlen n = (if n = 0 then 0 else Suc (bitlen (n div 2)))"

declare bitlen.simps [simp del]

definition round_double :: "nat \<Rightarrow> nat option" where
  "round_double n =
     (if n < 2 ^ 53 then Some n
      else let e = bitlen n - 53;
               q = n div 2 ^ e;
               r = n mod 2 ^ e;
               h = 2 ^ (e - 1);
               m = (if h < r \<or> (r = h \<and> odd q) then q + 1 else q) * 2 ^ e
           in if m < 2 ^ 1024 then Some m else None)"

definition to_number :: "int \<Rightarrow> jsnum" where
  "to_number i =
     (case round_double (nat \<bar>i\<bar>) of
        None \<Rightarrow> if i < 0 then NegInfinity else PosInfinity
      | Some m \<Rightarrow> Num (if i < 0 then - int m else int m))"

text \<open>
  \<open>parseInt(string)\<close> without a radix: leading white space, a sign, then the longest run of
  digits (hexadecimal after \<open>0x\<close>); \<open>NaN\<close> when there is no digit, else the double nearest
  to the integer that the digits stand for.
\<close>

definition hex_val :: "nat \<Rightarrow> nat" where
  "hex_val c =
     (if is_digit c then digit_val c
      else if c \<in> set (lit ''abcdef'') then c - 87
      else c - 55)"

definition is_hex_digit :: "nat \<Rightarrow> bool" where
  "is_hex_digit c = (c \<in> set (lit ''0123456789abcdefABCDEF''))"

definition parseInt_string :: "jsstring \<Rightarrow> jsnum" where
  "parseInt_string s =
     (let s1 = dropWhile is_space s;
          neg = (take 1 s1 = lit ''-'');
          s2 = (if take 1 s1 = lit ''-'' \<or> take 1 s1 = lit ''+'' then drop 1 s1 else s1);
          hex = (take 2 s2 = lit ''0x'' \<or> take 2 s2 = lit ''0X'');
          ds = (if hex then takeWhile is_hex_digit (drop 2 s2) else takeWhile is_digit s2);
          v = (if hex then foldl (\<lambda>a c. 16 * a + hex_val c) 0 ds else digits_value ds)
      in if ds = [] then NaN else to_number (if neg then - int v else int v))"

definition parseInt :: "jsvalue \<Rightarrow> jsnum" where
  "parseInt v = parseInt_string (js_ToString v)"

subsection \<open>Validation chains\<close>

text \<open>
  A chain built by \<open>body(field)\<close> is the field's path, the \<open>optional\<close> flag and the items
  added so far. Every validator carries its message, set by \<open>withMessage\<close> on the
  validator added last; without one the message is \<open>Invalid value\<close>.
\<close>

datatype validator =
    IsString
  | NotEmpty
  | Matches "jsstring \<Rightarrow> bool"
  | IsInt "int option" "int option"

datatype item =
    Validation validator "string option"
  | Sanitize_trim

record chain =
  chain_path :: string
  chain_optional :: bool
  chain_items :: "item list"

definition body :: "string \<Rightarrow> chain" where
  "body f = \<lparr>chain_path = f, chain_optional = False, chain_items = []\<rparr>"

definition add_item :: "item \<Rightarrow> chain \<Rightarrow> chain" where
  "add_item it c = c\<lparr>chain_items := chain_items c @ [it]\<rparr>"

definition isString :: "chain \<Rightarrow> chain" where
  "isString = add_item (Validation IsString None)"

definition trim_sanitizer :: "chain \<Rightarrow> chain" where
  "trim_sanitizer = add_item Sanitize_trim"

definition notEmpty :: "chain \<Rightarrow> chain" where
  "notEmpty = add_item (Validation NotEmpty None)"

definition matches :: "(jsstring \<Rightarrow> bool) \<Rightarrow> chain \<Rightarrow> chain" where
  "matches p = add_item (Validation (Matches p) None)"

definition isInt :: "int option \<Rightarrow> int option \<Rightarrow> chain \<Rightarrow> chain" where
  "isInt mn mx = add_item (Validation (IsInt mn mx) None)"

definition optional :: "chain \<Rightarrow> chain" where
  "optional c = c\<lparr>chain_optional := True\<rparr>"

fun set_last_message :: "string \<Rightarrow> item list \<Rightarrow> item list" where
  "set_last_message m [] = []"
| "set_last_message m (Validation v old # rest) = Validation v (Some m) # rest"
| "set_last_message m (Sanitize_trim # rest) = Sanitize_trim # set_last_message m rest"

definition withMessage :: "string \<Rightarrow> chain \<Rightarrow> chain" where
  "withMessage m c = c\<lparr>chain_items := rev (set_last_message m (rev (chain_items c)))\<rparr>"

text \<open>The calls of a chain in the order of the source, applied to \<open>body(field)\<close>.\<close>

definition chain_of :: "string \<Rightarrow> (chain \<Rightarrow> chain) list \<Rightarrow> chain" where
  "chain_of f calls = fold (\<lambda>call c. call c) calls (body f)"

definition searchValidationRules :: "chain list" where
  "searchValidationRules =
     [chain_of ''query''
        [isString, trim_sanitizer, notEmpty,
         withMessage ''Query is required and must be a non-empty string''],
      chain_of ''slug''
        [isString, trim_sanitizer, notEmpty,
         withMessage ''Slug is required and must be a non-empty string'',
         matches slug_pattern,
         withMessage
           ''Slug must contain only lowercase letters, numbers, hyphens and underscores''],
      chain_of ''limit''
        [optional, isInt (Some 1) (Some 100),
         withMessage ''Limit must be an integer between 1 and 100''],
      chain_of ''offset''
        [optional, isInt (Some 0) None,
         withMessage ''Offset must be a non-negative integer'']]"

subsection \<open>Running the chains on a request body\<close>

type_synonym req_body = "string \<Rightarrow> jsvalue"

text \<open>The string a standard validator or sanitizer sees for a field's value.\<close>

fun ev_toString :: "jsvalue \<Rightarrow> jsstring" where
  "ev_toString JUndefined = []"
| "ev_toString JNull = []"
| "ev_toString (JBool b) = (if b then lit ''true'' else lit ''false'')"
| "ev_toString (JNumber n) = n"
| "ev_toString (JString s) = s"

fun validator_ok :: "validator \<Rightarrow> jsvalue \<Rightarrow> bool" where
  "validator_ok IsString v = (case v of JString s \<Rightarrow> True | _ \<Rightarrow> False)"
| "validator_ok NotEmpty v = (ev_toString v \<noteq> [])"
| "validator_ok (Matches p) v = p (ev_toString v)"
| "validator_ok (IsInt mn mx) v = isInt_string mn mx (ev_toString v)"

text \<open>
  An error entry is the pair of \<open>err.path\<close> and \<open>err.msg\<close>. The items of a chain run in
  order and none stops the chain: each failing validator adds its own entry. The
  sanitizer writes the trimmed string back into the body. An optional chain skips a
  field whose value is \<open>undefined\<close>.
\<close>

type_synonym error_entry = "string \<times> string"

definition message_or_default :: "string option \<Rightarrow> string" where
  "message_or_default m = (case m of None \<Rightarrow> ''Invalid value'' | Some t \<Rightarrow> t)"

fun run_items ::
  "string \<Rightarrow> bool \<Rightarrow> item list \<Rightarrow> req_body \<times> error_entry list \<Rightarrow>
     req_body \<times> error_entry list" where
  "run_items p opt [] (b, errs) = (b, errs)"
| "run_items p opt (it # its) (b, errs) =
     (if opt \<and> b p = JUndefined then run_items p opt its (b, errs)
      else case it of
             Sanitize_trim \<Rightarrow>
               run_items p opt its (b(p := JString (trim (ev_toString (b p)))), errs)
           | Validation v m \<Rightarrow>
               run_items p opt its
                 (b, if validator_ok v (b p) then errs
                     else errs @ [(p, message_or_default m)]))"

definition run_chain :: "chain \<Rightarrow> req_body \<times> error_entry list \<Rightarrow> req_body \<times> error_entry list" where
  "run_chain c st = run_items (chain_path c) (chain_optional c) (chain_items c) st"

definition run_rules :: "chain list \<Rightarrow> req_body \<Rightarrow> req_body \<times> error_entry list" where
  "run_rules rules b = fold run_chain rules (b, [])"

section \<open>The HTTP front door\<close>

text \<open>
  A response is its status code and its body. The bodies the service sends:
  \<^item> \<open>Banner\<close>: the service banner of the root endpoint;
  \<^item> \<open>SearchData r\<close>: \<open>{success: true, data: r}\<close>;
  \<^item> \<open>ValidationErrors es\<close>: \<open>{success: false, errors: es}\<close>, each entry \<open>{field, message}\<close>;
  \<^item> \<open>HealthReport ok service timestamp hs\<close>: \<open>{success: ok, service, timestamp, ...hs}\<close>,
    where \<open>Healthy h\<close> spreads to \<open>status: "healthy", meilisearch: {status: h}\<close> and
    \<open>Unhealthy m\<close> to \<open>status: "unhealthy", error: m\<close>;
  \<^item> \<open>ErrorBody m st\<close>: \<open>{success: false, error: {message: m, stack: st}}\<close>, \<open>stack\<close> only
    when \<open>st\<close> is present;
  \<^item> \<open>RouteNotFound p\<close>: \<open>{success: false, error: {message: "Route not found", path: p}}\<close>;
  \<^item> \<open>NoBody\<close>: nothing, for a status code that carries no body;
  \<^item> \<open>DefaultErrorPage\<close>: the HTML page of the framework's own error handler.
\<close>

datatype ('q, 'h) json_body =
    Banner
  | SearchData "('q, 'h) search_result"
  | ValidationErrors "error_entry list"
  | HealthReport bool string string health_status
  | ErrorBody string "string option"
  | RouteNotFound "string list"
  | NoBody
  | DefaultErrorPage

record ('q, 'h) response =
  res_status :: int
  res_body :: "('q, 'h) json_body"

subsection \<open>\<open>errorHandler\<close> and \<open>notFoundHandler\<close>\<close>

definition production :: "env \<Rightarrow> bool" where
  "production e = (e ''NODE_ENV'' = Some (lit ''production''))"

text \<open>
  The status codes with which \<open>res.status(code).json(body)\<close> sends the body: not the
  informational codes, nor 204, 205 and 304.
\<close>

definition sends_body :: "int \<Rightarrow> bool" where
  "sends_body code = (200 \<le> code \<and> code \<noteq> 204 \<and> code \<noteq> 205 \<and> code \<noteq> 304)"

text \<open>
  \<open>errorHandler(err, req, res, next)\<close>. With a status code outside 100 to 999 sending
  the response throws, and the framework's own handler answers 500 with its HTML page.
\<close>

definition errorHandler ::
  "env \<Rightarrow> js_error \<Rightarrow> ('q, 'h) response \<times> 'q event list" where
  "errorHandler e err =
     (let code = js_or (statusCode err) (js_or (status err) 500)
      in if code < 100 \<or> 999 < code then
           (\<lparr>res_status = 500, res_body = DefaultErrorPage\<rparr>,
            [Log Error ''Error processing request''])
         else
           (\<lparr>res_status = code,
             res_body =
               (if sends_body code then
                  ErrorBody
                    (if production e then ''Internal server error'' else message err)
                    (if production e then None else Some (stack err))
                else NoBody)\<rparr>,
            [Log Error ''Error processing request'']))"

definition notFoundHandler :: "string list \<Rightarrow> ('q, 'h) response \<times> 'q event list" where
  "notFoundHandler p =
     (\<lparr>res_status = 404, res_body = RouteNotFound p\<rparr>, [Log Warn ''404 Not Found''])"

subsection \<open>The middleware \<open>validate\<close>\<close>

text \<open>
  \<open>validate\<close> answers 400 with the collected entries, or hands the request on
  (\<open>next()\<close>, the value \<open>None\<close>).
\<close>

definition validate :: "error_entry list \<Rightarrow> ('q, 'h) response option" where
  "validate errors =
     (if errors \<noteq> [] then Some \<lparr>res_status = 400, res_body = ValidationErrors errors\<rparr>
      else None)"

subsection \<open>The controllers \<open>search\<close> and \<open>health\<close>\<close>

text \<open>A destructuring default: \<open>const {limit = 20} = req.body\<close>.\<close>

definition field_default :: "jsvalue \<Rightarrow> string \<Rightarrow> jsvalue" where
  "field_default v d = (if v = JUndefined then JNumber (lit d) else v)"

text \<open>
  \<open>search(req, res, next)\<close>: the response, or the error passed to \<open>next\<close> (\<open>Inl\<close>).
\<close>

definition search ::
  "env \<Rightarrow> (jsvalue, 'h) engine \<Rightarrow> req_body \<Rightarrow>
     (plain_error + (jsvalue, 'h) response) \<times> jsvalue event list" where
  "search e eng b =
     (case searchWithFallback e eng (b ''query'') (b ''slug'')
             (Some (parseInt (field_default (b ''limit'') ''20'')))
             (Some (parseInt (field_default (b ''offset'') ''0''))) of
        (Inr result, evs) \<Rightarrow>
          (Inr \<lparr>res_status = 200, res_body = SearchData result\<rparr>,
           Log Info ''Processing search request'' # evs)
      | (Inl error, evs) \<Rightarrow> (Inl error, Log Info ''Processing search request'' # evs))"

text \<open>
  \<open>health(req, res)\<close>, given the outcome of the engine's health call and the time stamp
  of the response. The \<open>catch\<close> branch answers a throw of \<open>healthCheck\<close>.
\<close>

definition health ::
  "thrown + string \<Rightarrow> string \<Rightarrow> ('q, 'h) response \<times> 'q event list" where
  "health out now =
     (case healthCheck out of
        (Inr healthStatus, evs) \<Rightarrow>
          (\<lparr>res_status = (case healthStatus of Healthy h \<Rightarrow> 200 | Unhealthy m \<Rightarrow> 503),
            res_body = HealthReport (case healthStatus of Healthy h \<Rightarrow> True | Unhealthy m \<Rightarrow> False)
              ''search-service'' now healthStatus\<rparr>, evs)
      | (Inl error, evs) \<Rightarrow>
          (\<lparr>res_status = 503,
            res_body = HealthReport False ''search-service'' now (Unhealthy (message error))\<rparr>,
           evs @ [Log Error ''Health check failed'']))"

subsection \<open>Routing\<close>

text \<open>
  A request is its method, its path as the list of its segments (\<open>/api/v1/health\<close> is
  \<open>[api, v1, health]\<close>, \<open>/\<close> is \<open>[]\<close>) and what the JSON body parser made of its body:
  the parsed object, or the error that the parser raised (for malformed JSON an error
  with \<open>status\<close> and \<open>statusCode\<close> 400). The service's routes use the methods \<open>GET\<close> and
  \<open>POST\<close>.
\<close>

datatype http_method = GET | POST

datatype payload = Parsed req_body | Unparsed js_error

record request =
  req_method :: http_method
  req_path :: "string list"
  req_body :: payload

text \<open>What the outside of a request is: the engine, the engine's health, the clock.\<close>

record 'h world =
  engine :: "(jsvalue, 'h) engine"
  engine_health :: "thrown + string"
  now :: string

text \<open>
  The route \<open>POST /search\<close> of the router: the validation rules, \<open>validate\<close>, then the
  controller.
\<close>

definition search_route ::
  "env \<Rightarrow> 'h world \<Rightarrow> req_body \<Rightarrow>
     (plain_error + (jsvalue, 'h) response) \<times> jsvalue event list" where
  "search_route e w b =
     (case run_rules searchValidationRules b of
        (b', errors) \<Rightarrow>
          (case validate errors of
             Some res \<Rightarrow> (Inr res, [])
           | None \<Rightarrow> search e (engine w) b'))"

text \<open>Mount points and routes match without regard to the case of ASCII letters.\<close>

definition lower_char :: "char \<Rightarrow> char" where
  "lower_char c =
     (case map_of (zip ''ABCDEFGHIJKLMNOPQRSTUVWXYZ'' ''abcdefghijklmnopqrstuvwxyz'') c of
        None \<Rightarrow> c
      | Some d \<Rightarrow> d)"

definition lower_path :: "string list \<Rightarrow> string list" where
  "lower_path p = map (map lower_char) p"

text \<open>
  The router of \<open>routes/index.js\<close>, on the path that remains below its mount point:
  \<open>None\<close> when no route matches and the request falls through.
\<close>

definition routes ::
  "env \<Rightarrow> 'h world \<Rightarrow> http_method \<Rightarrow> string list \<Rightarrow> req_body \<Rightarrow>
     ((plain_error + (jsvalue, 'h) response) \<times> jsvalue event list) option" where
  "routes e w m p b =
     (if m = POST \<and> lower_path p = [''search''] then Some (search_route e w b)
      else if m = GET \<and> lower_path p = [''health''] then
        Some (case health (engine_health w) (now w) of (res, evs) \<Rightarrow> (Inr res, evs))
      else None)"

text \<open>\<open>app.use(prefix, router)\<close>: the router sees the path with the mount point removed.\<close>

definition mount ::
  "string list \<Rightarrow> (string list \<Rightarrow> 'a option) \<Rightarrow> string list \<Rightarrow> 'a option" where
  "mount pre router p =
     (if lower_path (take (length pre) p) = pre then router (drop (length pre) p) else None)"

text \<open>
  The application of \<open>server.js\<close>: the JSON body parser, the request log, the root
  endpoint, the router mounted at \<open>/api/v1\<close> and at \<open>/health\<close>, the 404 handler. An error
  of the body parser skips all of them and reaches \<open>errorHandler\<close>, as does an error
  that a controller passes to \<open>next\<close>.
\<close>

definition app ::
  "env \<Rightarrow> 'h world \<Rightarrow> request \<Rightarrow> (jsvalue, 'h) response \<times> jsvalue event list" where
  "app e w req =
     (case req_body req of
        Unparsed err \<Rightarrow> errorHandler e err
      | Parsed b \<Rightarrow>
         (let m = req_method req; p = req_path req;
              incoming = Log Info ''Incoming request'';
              finish = (\<lambda>out. case out of
                          (Inr res, evs) \<Rightarrow> (res, incoming # evs)
                        | (Inl err, evs) \<Rightarrow>
                            (case errorHandler e (without_status err) of
                               (res, evs') \<Rightarrow> (res, incoming # evs @ evs')))
          in if m = GET \<and> p = [] then (\<lparr>res_status = 200, res_body = Banner\<rparr>, [incoming])
             else case mount [''api'', ''v1''] (\<lambda>rest. routes e w m rest b) p of
                    Some out \<Rightarrow> finish out
                  | None \<Rightarrow>
                      (case mount [''health''] (\<lambda>rest. routes e w m rest b) p of
                         Some out \<Rightarrow> finish out
                       | None \<Rightarrow>
                           (case notFoundHandler p of (res, evs) \<Rightarrow> (res, incoming # evs)))))"

section \<open>Relations between outcomes, and the specification's reading of \<open>total\<close>\<close>

text \<open>
  The tenant-specific call gave no hit: it threw an error object, or it returned an
  empty list.
\<close>

definition no_local_hits :: "thrown + 'h search_response \<Rightarrow> bool" where
  "no_local_hits out =
     (case out of
        Inl error \<Rightarrow> (case error of Thrown_error err \<Rightarrow> True | Thrown_nullish v \<Rightarrow> False)
      | Inr r \<Rightarrow> res_hits r = [])"


text \<open>
  Two outcomes of the engine carry the same data: the same error, or responses with the
  same hits and the same estimate (the processing times may differ).
\<close>

definition same_data ::
  "thrown + 'h search_response \<Rightarrow> thrown + 'h search_response \<Rightarrow> bool" where
  "same_data a b =
     (case a of
        Inl x \<Rightarrow> (case b of Inl y \<Rightarrow> x = y | Inr s \<Rightarrow> False)
      | Inr r \<Rightarrow>
          (case b of
             Inl y \<Rightarrow> False
           | Inr s \<Rightarrow> res_hits r = res_hits s \<and> estimatedTotalHits r = estimatedTotalHits s))"

text \<open>
  Two outcomes of \<open>searchWithFallback\<close> agree on \<open>source\<close>, \<open>indexName\<close>, \<open>hits\<close> and
  \<open>total\<close>, or are the same failure.
\<close>

definition same_answer ::
  "plain_error + ('q, 'h) search_result \<Rightarrow> plain_error + ('q, 'h) search_result \<Rightarrow> bool" where
  "same_answer a b =
     (case a of
        Inl x \<Rightarrow> (case b of Inl y \<Rightarrow> x = y | Inr s \<Rightarrow> False)
      | Inr r \<Rightarrow>
          (case b of
             Inl y \<Rightarrow> False
           | Inr s \<Rightarrow> source r = source s \<and> indexName r = indexName s
               \<and> hits r = hits s \<and> total_hits r = total_hits s))"

text \<open>
  The specification's words for \<open>total\<close>: the engine's estimate when the field is
  present, else the number of hits returned.
\<close>

definition spec_total :: "'h search_response \<Rightarrow> int" where
  "spec_total r =
     (case estimatedTotalHits r of Some n \<Rightarrow> n | None \<Rightarrow> int (length (res_hits r)))"

text \<open>A request is accepted when the validation rules leave no error entry.\<close>

definition accepted :: "req_body \<Rightarrow> bool" where
  "accepted b = (snd (run_rules searchValidationRules b) = [])"

text \<open>
  The entries that the rules yield, chain by chain and validator by validator, and the
  body that the sanitizers leave.
\<close>

definition is_string :: "jsvalue \<Rightarrow> bool" where
  "is_string v = (case v of JString s \<Rightarrow> True | _ \<Rightarrow> False)"

definition query_errors :: "req_body \<Rightarrow> error_entry list" where
  "query_errors b =
     (if is_string (b ''query'') then [] else [(''query'', ''Invalid value'')]) @
     (if trim (ev_toString (b ''query'')) \<noteq> [] then []
      else [(''query'', ''Query is required and must be a non-empty string'')])"

definition slug_errors :: "req_body \<Rightarrow> error_entry list" where
  "slug_errors b =
     (if is_string (b ''slug'') then [] else [(''slug'', ''Invalid value'')]) @
     (if trim (ev_toString (b ''slug'')) \<noteq> [] then []
      else [(''slug'', ''Slug is required and must be a non-empty string'')]) @
     (if slug_pattern (trim (ev_toString (b ''slug''))) then []
      else [(''slug'',
             ''Slug must contain only lowercase letters, numbers, hyphens and underscores'')])"

definition limit_errors :: "req_body \<Rightarrow> error_entry list" where
  "limit_errors b =
     (if b ''limit'' = JUndefined \<or> isInt_string (Some 1) (Some 100) (ev_toString (b ''limit''))
      then [] else [(''limit'', ''Limit must be an integer between 1 and 100'')])"

definition offset_errors :: "req_body \<Rightarrow> error_entry list" where
  "offset_errors b =
     (if b ''offset'' = JUndefined \<or> isInt_string (Some 0) None (ev_toString (b ''offset''))
      then [] else [(''offset'', ''Offset must be a non-negative integer'')])"

definition sanitized :: "req_body \<Rightarrow> req_body" where
  "sanitized b =
     b(''query'' := JString (trim (ev_toString (b ''query''))),
       ''slug'' := JString (trim (ev_toString (b ''slug''))))"

text \<open>
  A string is trimmed when it neither begins nor ends with white space; a string is
  blank when it is white space throughout.
\<close>

definition trimmed :: "jsstring \<Rightarrow> bool" where
  "trimmed s = (s = [] \<or> (\<not> is_space (hd s) \<and> \<not> is_space (last s)))"

definition blank :: "jsstring \<Rightarrow> bool" where
  "blank s = list_all is_space s"

section \<open>Example configurations, engines and requests\<close>

definition default_env :: env where
  "default_env k = None"

definition production_env :: env where
  "production_env k = (if k = ''NODE_ENV'' then Some (lit ''production'') else None)"

definition index_not_found :: plain_error where
  "index_not_found =
     \<lparr>message = ''Index not found'', stack = ''MeiliSearchApiError: Index not found''\<rparr>"

definition connection_refused :: plain_error where
  "connection_refused =
     \<lparr>message = ''request failed, reason: connect ECONNREFUSED'',
      stack = ''MeiliSearchCommunicationError: request failed''\<rparr>"

text \<open>
  The error of the JSON body parser for a malformed body: it carries \<open>status\<close> and
  \<open>statusCode\<close> 400.
\<close>

definition malformed_json :: js_error where
  "malformed_json =
     \<lparr>message = ''Unexpected end of JSON input'',
      stack = ''SyntaxError: Unexpected end of JSON input'',
      statusCode = Some 400, status = Some 400\<rparr>"

text \<open>
  A store with one product matching \<open>arroz\<close> in its own index and one product matching
  \<open>detergente ace\<close> in the global index only; any other index does not exist.
\<close>

definition store_engine :: "int \<Rightarrow> (jsvalue, string) engine" where
  "store_engine ms i q l off =
     (if i = lit ''productos_colmado_colmado_william'' then
        Inr \<lparr>res_hits = (if q = JString (lit ''arroz'') then [''Arroz Graneado''] else []),
             estimatedTotalHits = Some (if q = JString (lit ''arroz'') then 1 else 0),
             res_processingTimeMs = ms\<rparr>
      else if i = lit ''colmado_inventory'' then
        Inr \<lparr>res_hits =
               (if q = JString (lit ''detergente ace'') then [''Detergente Ace''] else []),
             estimatedTotalHits = Some (if q = JString (lit ''detergente ace'') then 1 else 0),
             res_processingTimeMs = ms\<rparr>
      else Inl (Thrown_error index_not_found))"


text \<open>An engine that cannot be reached: every call fails.\<close>

definition down_engine :: "(jsvalue, string) engine" where
  "down_engine i q l off = Inl (Thrown_error connection_refused)"


text \<open>An engine whose response reports an estimate of zero beside one hit.\<close>

definition zero_estimate_response :: "string search_response" where
  "zero_estimate_response =
     \<lparr>res_hits = [''Arroz Graneado''], estimatedTotalHits = Some 0, res_processingTimeMs = 3\<rparr>"

definition zero_estimate_engine :: "(jsvalue, string) engine" where
  "zero_estimate_engine i q l off = Inr zero_estimate_response"


text \<open>A JSON object as a request body.\<close>

definition body_of :: "(string \<times> jsvalue) list \<Rightarrow> req_body" where
  "body_of kvs k = (case map_of kvs k of None \<Rightarrow> JUndefined | Some v \<Rightarrow> v)"

definition store_world :: "string world" where
  "store_world =
     \<lparr>engine = store_engine 12, engine_health = Inr ''available'',
      now = ''2025-01-19T10:30:00.000Z''\<rparr>"

definition down_world :: "string world" where
  "down_world =
     \<lparr>engine = down_engine, engine_health = Inl (Thrown_error connection_refused),
      now = ''2025-01-19T10:30:00.000Z''\<rparr>"

definition arroz_request :: req_body where
  "arroz_request =
     body_of [(''query'', JString (lit ''arroz'')), (''slug'', JString (lit ''colmado_william''))]"

text \<open>
  A query with two spaces before and a no-break space after it, a slug with a byte
  order mark before and a line separator after it.
\<close>

definition padded_request :: req_body where
  "padded_request =
     body_of [(''query'', JString (lit ''  arroz'' @ [0xA0])),
              (''slug'', JString (0xFEFF # lit ''colmado_william'' @ [0x2028]))]"

definition missing_slug_request :: req_body where
  "missing_slug_request = body_of [(''query'', JString (lit ''arroz''))]"

section \<open>Properties of the fallback decision\<close>

lemma lit_append [simp]: "lit a @ lit b = lit (a @ b)"
  by (simp add: lit_def)

lemma lit_eq_iff [simp]: "lit a = lit b \<longleftrightarrow> a = b"
  by (simp add: lit_def inj_map_eq_map inj_on_def)

lemma global_step_fst:
  "fst (global_step e eng q l off) =
     (case eng (GLOBAL_INDEX e) q l off of
        Inl error \<Rightarrow>
          (case error of
             Thrown_error err \<Rightarrow> Inl err
           | Thrown_nullish v \<Rightarrow> Inl (type_error v ''message''))
      | Inr g \<Rightarrow> Inr (build_result Global (GLOBAL_INDEX e) g q l off))"
  by (simp add: global_step_def split: sum.split thrown.split)

lemma global_step_searches:
  "filter is_search (snd (global_step e eng q l off)) = [Search (GLOBAL_INDEX e) q l off]"
  by (simp add: global_step_def split: sum.split thrown.split)

lemma searchWithFallback_fst:
  "fst (searchWithFallback e eng q slug la oa) =
     (case eng (LOCAL_INDEX_PREFIX e @ js_ToString slug) q
             (param_default la 20) (param_default oa 0) of
        Inr r \<Rightarrow>
          if res_hits r \<noteq> []
          then Inr (build_result Local (LOCAL_INDEX_PREFIX e @ js_ToString slug) r q
                 (param_default la 20) (param_default oa 0))
          else fst (global_step e eng q (param_default la 20) (param_default oa 0))
      | Inl error \<Rightarrow>
          (case error of
             Thrown_error err \<Rightarrow>
               fst (global_step e eng q (param_default la 20) (param_default oa 0))
           | Thrown_nullish v \<Rightarrow> Inl (type_error v ''message'')))"
  by (simp add: searchWithFallback_def Let_def split: sum.split prod.split thrown.split)

lemma searchWithFallback_searches:
  "filter is_search (snd (searchWithFallback e eng q slug la oa)) =
     Search (LOCAL_INDEX_PREFIX e @ js_ToString slug) q (param_default la 20) (param_default oa 0)
     # (if no_local_hits (eng (LOCAL_INDEX_PREFIX e @ js_ToString slug) q
             (param_default la 20) (param_default oa 0))
        then [Search (GLOBAL_INDEX e) q (param_default la 20) (param_default oa 0)]
        else [])"
proof -
  have g: "filter is_search (snd (global_step e eng q (param_default la 20) (param_default oa 0)))
      = [Search (GLOBAL_INDEX e) q (param_default la 20) (param_default oa 0)]"
    by (rule global_step_searches)
  show ?thesis
    using g
    by (cases "global_step e eng q (param_default la 20) (param_default oa 0)")
      (simp add: searchWithFallback_def Let_def no_local_hits_def
        split: sum.split thrown.split)
qed

text \<open>
  Claim C1. When the search in the tenant-specific index succeeds with one or more hits,
  \<open>searchWithFallback\<close> returns a result with source \<open>local\<close>, the index name that is the
  prefix followed by the slug, and the engine's hits and processing time as they are; the
  only engine call of the run is the one on the tenant-specific index.
\<close>

theorem local_hit_returns_local:
  assumes "eng (LOCAL_INDEX_PREFIX e @ js_ToString slug) q
             (param_default la 20) (param_default oa 0) = Inr r"
    and "res_hits r \<noteq> []"
  shows "fst (searchWithFallback e eng q slug la oa) =
           Inr \<lparr>source = Local, indexName = LOCAL_INDEX_PREFIX e @ js_ToString slug,
                hits = res_hits r, total_hits = total_of r, query = q,
                limit = param_default la 20, offset = param_default oa 0,
                processingTimeMs = res_processingTimeMs r\<rparr>
         \<and> filter is_search (snd (searchWithFallback e eng q slug la oa)) =
             [Search (LOCAL_INDEX_PREFIX e @ js_ToString slug) q
                (param_default la 20) (param_default oa 0)]"
  using assms
  by (simp add: searchWithFallback_fst searchWithFallback_searches build_result_def
      no_local_hits_def)

text \<open>The index names of the default configuration.\<close>

lemma default_prefix: "LOCAL_INDEX_PREFIX default_env = lit ''productos_colmado_''"
  by (simp add: LOCAL_INDEX_PREFIX_def env_or_def default_env_def)

lemma default_global: "GLOBAL_INDEX default_env = lit ''colmado_inventory''"
  by (simp add: GLOBAL_INDEX_def env_or_def default_env_def)

text \<open>The local-hit scenario: \<open>arroz\<close> in the store \<open>colmado_william\<close>.\<close>

theorem local_hit_returns_local_witness:
  "fst (searchWithFallback default_env (store_engine 12) (JString (lit ''arroz''))
          (JString (lit ''colmado_william'')) None None) =
     Inr \<lparr>source = Local, indexName = lit ''productos_colmado_colmado_william'',
          hits = [''Arroz Graneado''], total_hits = 1, query = JString (lit ''arroz''),
          limit = Num 20, offset = Num 0, processingTimeMs = 12\<rparr>
   \<and> filter is_search
       (snd (searchWithFallback default_env (store_engine 12) (JString (lit ''arroz''))
          (JString (lit ''colmado_william'')) None None)) =
     [Search (lit ''productos_colmado_colmado_william'') (JString (lit ''arroz''))
        (Num 20) (Num 0)]"
  using local_hit_returns_local [of "store_engine 12" default_env
      "JString (lit ''colmado_william'')" "JString (lit ''arroz'')" None None
      "\<lparr>res_hits = [''Arroz Graneado''], estimatedTotalHits = Some 1,
        res_processingTimeMs = 12\<rparr>"]
  by (simp add: store_engine_def default_prefix param_default_def total_of_def
      js_or_def)




text \<open>
  Claim C3. In every result of \<open>searchWithFallback\<close>: a source \<open>local\<close> comes with the index
  name prefix followed by slug, and only when the tenant-specific call succeeded with at
  least one hit; a source \<open>global\<close> comes with the configured global index name.
\<close>

theorem result_source_invariant:
  assumes "fst (searchWithFallback e eng q slug la oa) = Inr res"
  shows "(source res = Local \<longrightarrow>
            indexName res = LOCAL_INDEX_PREFIX e @ js_ToString slug
            \<and> (\<exists>r. eng (LOCAL_INDEX_PREFIX e @ js_ToString slug) q
                     (param_default la 20) (param_default oa 0) = Inr r
                   \<and> res_hits r \<noteq> []))
       \<and> (source res = Global \<longrightarrow> indexName res = GLOBAL_INDEX e)"
  using assms
  by (auto simp add: searchWithFallback_fst global_step_fst build_result_def
      split: sum.splits thrown.splits if_splits)

text \<open>The invariant on the local-hit scenario.\<close>

theorem result_source_invariant_witness:
  "fst (searchWithFallback default_env (store_engine 12) (JString (lit ''arroz''))
          (JString (lit ''colmado_william'')) None None) =
     Inr \<lparr>source = Local, indexName = lit ''productos_colmado_colmado_william'',
          hits = [''Arroz Graneado''], total_hits = 1, query = JString (lit ''arroz''),
          limit = Num 20, offset = Num 0, processingTimeMs = 12\<rparr>
   \<and> (\<exists>r. store_engine 12 (lit ''productos_colmado_colmado_william'') (JString (lit ''arroz''))
            (Num 20) (Num 0) = Inr r \<and> res_hits r \<noteq> [])"
proof -
  let ?res = "\<lparr>source = Local, indexName = lit ''productos_colmado_colmado_william'',
          hits = [''Arroz Graneado''], total_hits = 1, query = JString (lit ''arroz''),
          limit = Num 20, offset = Num 0, processingTimeMs = 12\<rparr>"
  have run: "fst (searchWithFallback default_env (store_engine 12) (JString (lit ''arroz''))
          (JString (lit ''colmado_william'')) None None) = Inr ?res"
    by (simp add: searchWithFallback_fst store_engine_def default_prefix param_default_def
        build_result_def total_of_def js_or_def)
  from result_source_invariant [OF run] show ?thesis
    using run by (simp add: default_prefix param_default_def)
qed

text \<open>
  Claim C4, as stated: the total is the engine's estimate whenever the field is present.
  It fails on a response that carries an estimate of zero beside one hit: \<open>0 || 1\<close> is
  \<open>1\<close>, so the result's total is the number of hits.
\<close>

theorem total_present_estimate_counterexample:
  "fst (searchWithFallback default_env zero_estimate_engine (JString (lit ''arroz''))
          (JString (lit ''colmado_william'')) None None) =
     Inr \<lparr>source = Local, indexName = lit ''productos_colmado_colmado_william'',
          hits = [''Arroz Graneado''], total_hits = 1, query = JString (lit ''arroz''),
          limit = Num 20, offset = Num 0, processingTimeMs = 3\<rparr>
   \<and> estimatedTotalHits zero_estimate_response = Some 0
   \<and> spec_total zero_estimate_response = 0
   \<and> total_of zero_estimate_response \<noteq> spec_total zero_estimate_response"
  by (simp add: searchWithFallback_fst zero_estimate_engine_def zero_estimate_response_def
      default_prefix param_default_def build_result_def total_of_def js_or_def spec_total_def)

text \<open>
  Claim C4, amended. Every result is built from the response of the engine call on the
  result's index; its hits are that response's hits, and its total is the engine's
  estimate when the estimate is present and not zero, and the number of returned hits
  otherwise.
\<close>

theorem total_two_tier:
  assumes "fst (searchWithFallback e eng q slug la oa) = Inr res"
  shows "\<exists>r. eng (indexName res) q (param_default la 20) (param_default oa 0) = Inr r
            \<and> hits res = res_hits r
            \<and> total_hits res =
                (case estimatedTotalHits r of
                   Some n \<Rightarrow> if n \<noteq> 0 then n else int (length (res_hits r))
                 | None \<Rightarrow> int (length (res_hits r)))"
  using assms
  by (auto simp add: searchWithFallback_fst global_step_fst build_result_def total_of_def
      js_or_def split: sum.splits thrown.splits if_splits option.splits)

text \<open>The fallback scenario: \<open>detergente ace\<close> is in the global index only.\<close>

theorem total_two_tier_witness:
  "fst (searchWithFallback default_env (store_engine 12) (JString (lit ''detergente ace''))
          (JString (lit ''colmado_william'')) None None) =
     Inr \<lparr>source = Global, indexName = lit ''colmado_inventory'',
          hits = [''Detergente Ace''], total_hits = 1, query = JString (lit ''detergente ace''),
          limit = Num 20, offset = Num 0, processingTimeMs = 12\<rparr>
   \<and> (\<exists>r. store_engine 12 (lit ''colmado_inventory'') (JString (lit ''detergente ace'')) (Num 20) (Num 0)
            = Inr r
          \<and> res_hits r = [''Detergente Ace''] \<and> estimatedTotalHits r = Some 1)"
proof -
  let ?res = "\<lparr>source = Global, indexName = lit ''colmado_inventory'',
          hits = [''Detergente Ace''], total_hits = 1, query = JString (lit ''detergente ace''),
          limit = Num 20, offset = Num 0, processingTimeMs = 12\<rparr>"
  have run: "fst (searchWithFallback default_env (store_engine 12) (JString (lit ''detergente ace''))
          (JString (lit ''colmado_william'')) None None) = Inr ?res"
    by (simp add: searchWithFallback_fst global_step_fst store_engine_def default_prefix
        default_global param_default_def build_result_def total_of_def js_or_def)
  from total_two_tier [OF run] show ?thesis
    using run by (simp add: param_default_def store_engine_def)
qed

text \<open>
  Claim C8. Two runs on the same request, against engines whose answers to the two
  calls carry the same data (the same error, or the same hits and estimate, whatever the
  processing times), agree: both fail with the same error, or both return results with
  the same source, index name, hits and total.
\<close>

theorem same_request_same_answer:
  assumes "same_data (eng1 (LOCAL_INDEX_PREFIX e @ js_ToString slug) q
                        (param_default la 20) (param_default oa 0))
                     (eng2 (LOCAL_INDEX_PREFIX e @ js_ToString slug) q
                        (param_default la 20) (param_default oa 0))"
    and "same_data (eng1 (GLOBAL_INDEX e) q (param_default la 20) (param_default oa 0))
                   (eng2 (GLOBAL_INDEX e) q (param_default la 20) (param_default oa 0))"
  shows "same_answer (fst (searchWithFallback e eng1 q slug la oa))
                     (fst (searchWithFallback e eng2 q slug la oa))"
  using assms
  by (auto simp add: searchWithFallback_fst global_step_fst build_result_def total_of_def
      same_data_def same_answer_def split: sum.splits thrown.splits if_splits)

text \<open>The same store answering in 12 and in 40 milliseconds.\<close>

theorem same_request_same_answer_witness:
  "same_data (store_engine 12 (lit ''productos_colmado_colmado_william'') (JString (lit ''arroz'')) (Num 20) (Num 0))
             (store_engine 40 (lit ''productos_colmado_colmado_william'') (JString (lit ''arroz'')) (Num 20) (Num 0))
   \<and> same_data (store_engine 12 (lit ''colmado_inventory'') (JString (lit ''arroz'')) (Num 20) (Num 0))
               (store_engine 40 (lit ''colmado_inventory'') (JString (lit ''arroz'')) (Num 20) (Num 0))
   \<and> same_answer
        (fst (searchWithFallback default_env (store_engine 12) (JString (lit ''arroz''))
           (JString (lit ''colmado_william'')) None None))
        (fst (searchWithFallback default_env (store_engine 40) (JString (lit ''arroz''))
           (JString (lit ''colmado_william'')) None None))
   \<and> fst (searchWithFallback default_env (store_engine 12) (JString (lit ''arroz''))
           (JString (lit ''colmado_william'')) None None)
     \<noteq> fst (searchWithFallback default_env (store_engine 40) (JString (lit ''arroz''))
           (JString (lit ''colmado_william'')) None None)"
proof -
  have l: "same_data
      (store_engine 12 (LOCAL_INDEX_PREFIX default_env @ js_ToString (JString (lit ''colmado_william'')))
         (JString (lit ''arroz'')) (param_default None 20) (param_default None 0))
      (store_engine 40 (LOCAL_INDEX_PREFIX default_env @ js_ToString (JString (lit ''colmado_william'')))
         (JString (lit ''arroz'')) (param_default None 20) (param_default None 0))"
    by (simp add: same_data_def store_engine_def default_prefix)
  have g: "same_data
      (store_engine 12 (GLOBAL_INDEX default_env) (JString (lit ''arroz''))
         (param_default None 20) (param_default None 0))
      (store_engine 40 (GLOBAL_INDEX default_env) (JString (lit ''arroz''))
         (param_default None 20) (param_default None 0))"
    by (simp add: same_data_def store_engine_def default_global)
  have d: "fst (searchWithFallback default_env (store_engine 12) (JString (lit ''arroz''))
           (JString (lit ''colmado_william'')) None None)
     \<noteq> fst (searchWithFallback default_env (store_engine 40) (JString (lit ''arroz''))
           (JString (lit ''colmado_william'')) None None)"
    by (simp add: searchWithFallback_fst store_engine_def default_prefix param_default_def
        build_result_def)
  from same_request_same_answer
      [of "store_engine 12" default_env "JString (lit ''colmado_william'')" "JString (lit ''arroz'')"
        None None "store_engine 40", OF l g]
  show ?thesis
    using l g d by (simp add: default_prefix default_global param_default_def)
qed

section \<open>Properties of the validation rules\<close>

lemma searchValidationRules_items:
  "searchValidationRules =
     [\<lparr>chain_path = ''query'', chain_optional = False,
        chain_items =
          [Validation IsString None, Sanitize_trim,
           Validation NotEmpty (Some ''Query is required and must be a non-empty string'')]\<rparr>,
      \<lparr>chain_path = ''slug'', chain_optional = False,
        chain_items =
          [Validation IsString None, Sanitize_trim,
           Validation NotEmpty (Some ''Slug is required and must be a non-empty string''),
           Validation (Matches slug_pattern)
             (Some ''Slug must contain only lowercase letters, numbers, hyphens and underscores'')]\<rparr>,
      \<lparr>chain_path = ''limit'', chain_optional = True,
        chain_items =
          [Validation (IsInt (Some 1) (Some 100))
             (Some ''Limit must be an integer between 1 and 100'')]\<rparr>,
      \<lparr>chain_path = ''offset'', chain_optional = True,
        chain_items =
          [Validation (IsInt (Some 0) None) (Some ''Offset must be a non-negative integer'')]\<rparr>]"
  by (simp add: searchValidationRules_def chain_of_def body_def isString_def
      trim_sanitizer_def notEmpty_def matches_def isInt_def optional_def add_item_def
      withMessage_def)

lemma run_items_errors:
  "run_items p opt its (b, errs) =
     (fst (run_items p opt its (b, [])), errs @ snd (run_items p opt its (b, [])))"
proof (induction its arbitrary: b errs)
  case Nil
  show ?case by simp
next
  case (Cons it its)
  have step: "\<exists>b' es. \<forall>errs. run_items p opt (it # its) (b, errs) =
      run_items p opt its (b', errs @ es)"
  proof (cases "opt \<and> b p = JUndefined")
    case True
    then have "\<forall>errs. run_items p opt (it # its) (b, errs) = run_items p opt its (b, errs @ [])"
      by simp
    then show ?thesis by blast
  next
    case False
    show ?thesis
    proof (cases it)
      case Sanitize_trim
      then have "\<forall>errs. run_items p opt (it # its) (b, errs) =
          run_items p opt its (b(p := JString (trim (ev_toString (b p)))), errs @ [])"
        using False by auto
      then show ?thesis by blast
    next
      case (Validation v m)
      then have "\<forall>errs. run_items p opt (it # its) (b, errs) =
          run_items p opt its
            (b, errs @ (if validator_ok v (b p) then [] else [(p, message_or_default m)]))"
        using False by auto
      then show ?thesis by blast
    qed
  qed
  then obtain b' es where
    st: "\<And>errs. run_items p opt (it # its) (b, errs) = run_items p opt its (b', errs @ es)"
    by blast
  have a: "run_items p opt its (b', errs @ es) =
      (fst (run_items p opt its (b', [])), (errs @ es) @ snd (run_items p opt its (b', [])))"
    by (rule Cons.IH)
  have c: "run_items p opt its (b', [] @ es) =
      (fst (run_items p opt its (b', [])), ([] @ es) @ snd (run_items p opt its (b', [])))"
    by (rule Cons.IH)
  show ?case
    unfolding st [of errs] st [of "[]"] a c by simp
qed

lemma run_query_chain:
  "run_items ''query'' False
     [Validation IsString None, Sanitize_trim,
      Validation NotEmpty (Some ''Query is required and must be a non-empty string'')] (b, []) =
     (b(''query'' := JString (trim (ev_toString (b ''query'')))), query_errors b)"
  by (simp add: query_errors_def is_string_def message_or_default_def split: jsvalue.split)

lemma run_slug_chain:
  "run_items ''slug'' False
     [Validation IsString None, Sanitize_trim,
      Validation NotEmpty (Some ''Slug is required and must be a non-empty string''),
      Validation (Matches slug_pattern)
        (Some ''Slug must contain only lowercase letters, numbers, hyphens and underscores'')]
     (b, []) =
     (b(''slug'' := JString (trim (ev_toString (b ''slug'')))), slug_errors b)"
  by (simp add: slug_errors_def is_string_def message_or_default_def split: jsvalue.split)

lemma run_limit_chain:
  "run_items ''limit'' True
     [Validation (IsInt (Some 1) (Some 100))
        (Some ''Limit must be an integer between 1 and 100'')] (b, []) =
     (b, limit_errors b)"
  by (simp add: limit_errors_def message_or_default_def)

lemma run_offset_chain:
  "run_items ''offset'' True
     [Validation (IsInt (Some 0) None) (Some ''Offset must be a non-negative integer'')] (b, []) =
     (b, offset_errors b)"
  by (simp add: offset_errors_def message_or_default_def)

lemma run_rules_search:
  "run_rules searchValidationRules b =
     (sanitized b, query_errors b @ slug_errors b @ limit_errors b @ offset_errors b)"
proof -
  let ?b1 = "b(''query'' := JString (trim (ev_toString (b ''query''))))"
  let ?b2 = "?b1(''slug'' := JString (trim (ev_toString (?b1 ''slug''))))"
  have s1: "slug_errors ?b1 = slug_errors b"
    by (simp add: slug_errors_def)
  have s2: "limit_errors (sanitized b) = limit_errors b"
    by (simp add: limit_errors_def sanitized_def)
  have s3: "offset_errors (sanitized b) = offset_errors b"
    by (simp add: offset_errors_def sanitized_def)
  have s4: "?b2 = sanitized b"
    by (simp add: sanitized_def)
  have "run_rules searchValidationRules b =
      (?b2, query_errors b @ slug_errors ?b1 @ limit_errors ?b2 @ offset_errors ?b2)"
    unfolding run_rules_def searchValidationRules_items fold_simps run_chain_def
      chain.simps
    apply (subst run_query_chain)
    apply (subst run_items_errors)
    apply (simp only: run_slug_chain fst_conv snd_conv)
    apply (subst run_items_errors)
    apply (simp only: run_limit_chain fst_conv snd_conv)
    apply (subst run_items_errors)
    apply (simp only: run_offset_chain fst_conv snd_conv append_assoc)
    done
  then show ?thesis
    unfolding s1 s4 s2 s3 .
qed

lemma accepted_iff:
  "accepted b \<longleftrightarrow>
     (\<exists>q. b ''query'' = JString q \<and> trim q \<noteq> []) \<and>
     (\<exists>s. b ''slug'' = JString s \<and> slug_pattern (trim s)) \<and>
     (b ''limit'' = JUndefined \<or>
        (\<exists>n. int_literal (ev_toString (b ''limit'')) = Some n \<and> 1 \<le> n \<and> n \<le> 100)) \<and>
     (b ''offset'' = JUndefined \<or>
        (\<exists>n. int_literal (ev_toString (b ''offset'')) = Some n \<and> 0 \<le> n))"
proof -
  have q: "query_errors b = [] \<longleftrightarrow> (\<exists>q. b ''query'' = JString q \<and> trim q \<noteq> [])"
    by (cases "b ''query''") (simp_all add: query_errors_def is_string_def)
  have s: "slug_errors b = [] \<longleftrightarrow> (\<exists>s. b ''slug'' = JString s \<and> slug_pattern (trim s))"
    by (cases "b ''slug''") (auto simp add: slug_errors_def is_string_def slug_pattern_def)
  have l: "limit_errors b = [] \<longleftrightarrow>
      (b ''limit'' = JUndefined \<or>
        (\<exists>n. int_literal (ev_toString (b ''limit'')) = Some n \<and> 1 \<le> n \<and> n \<le> 100))"
    by (simp add: limit_errors_def isInt_string_def split: option.split)
  have r: "offset_errors b = [] \<longleftrightarrow>
      (b ''offset'' = JUndefined \<or>
        (\<exists>n. int_literal (ev_toString (b ''offset'')) = Some n \<and> 0 \<le> n))"
    by (simp add: offset_errors_def isInt_string_def split: option.split)
  show ?thesis
    unfolding accepted_def run_rules_search snd_conv append_is_Nil_conv q s l r ..
qed

lemma rejected_request:
  assumes "\<not> accepted b"
  shows "search_route e w b =
           (Inr \<lparr>res_status = 400,
                 res_body = ValidationErrors
                   (query_errors b @ slug_errors b @ limit_errors b @ offset_errors b)\<rparr>, [])"
  using assms by (simp add: search_route_def accepted_def run_rules_search validate_def)

lemma accepted_request:
  assumes "accepted b"
  shows "search_route e w b = search e (engine w) (sanitized b)"
  using assms by (simp add: search_route_def accepted_def run_rules_search validate_def)

lemma search_fst:
  "fst (search e eng b) =
     (case fst (searchWithFallback e eng (b ''query'') (b ''slug'')
                 (Some (parseInt (field_default (b ''limit'') ''20'')))
                 (Some (parseInt (field_default (b ''offset'') ''0'')))) of
        Inr result \<Rightarrow> Inr \<lparr>res_status = 200, res_body = SearchData result\<rparr>
      | Inl err \<Rightarrow> Inl err)"
  by (simp add: search_def split: prod.split sum.split)

lemma search_snd:
  "snd (search e eng b) =
     Log Info ''Processing search request'' #
     snd (searchWithFallback e eng (b ''query'') (b ''slug'')
            (Some (parseInt (field_default (b ''limit'') ''20'')))
            (Some (parseInt (field_default (b ''offset'') ''0''))))"
  by (simp add: search_def split: prod.split sum.split)

text \<open>What \<open>trim\<close> removes is white space, and what it leaves is trimmed.\<close>

lemma trim_trimmed: "trimmed (trim s)"
proof (cases "trim s = []")
  case True
  then show ?thesis by (simp add: trimmed_def)
next
  case False
  let ?t = "dropWhile is_space s"
  have t: "?t = trim s @ rev (takeWhile is_space (rev ?t))"
  proof -
    have "rev ?t = takeWhile is_space (rev ?t) @ dropWhile is_space (rev ?t)"
      by simp
    then have "rev (rev ?t) =
        rev (dropWhile is_space (rev ?t)) @ rev (takeWhile is_space (rev ?t))"
      by (metis rev_append)
    then show ?thesis by (simp add: trim_def)
  qed
  have "?t \<noteq> []"
  proof
    assume a: "?t = []"
    have "trim s = []" unfolding trim_def a by simp
    with False show False by simp
  qed
  then have "\<not> is_space (hd ?t)"
    by (rule hd_dropWhile)
  moreover have "hd ?t = hd (trim s)"
    using False t by (metis hd_append2)
  ultimately have first: "\<not> is_space (hd (trim s))"
    by simp
  have "dropWhile is_space (rev ?t) \<noteq> []"
    using False by (simp add: trim_def)
  then have "\<not> is_space (hd (dropWhile is_space (rev ?t)))"
    by (rule hd_dropWhile)
  moreover have "last (trim s) = hd (dropWhile is_space (rev ?t))"
    using False by (simp add: trim_def last_rev)
  ultimately have "\<not> is_space (last (trim s))"
    by simp
  with first show ?thesis by (simp add: trimmed_def)
qed

lemma trim_decomposition:
  "\<exists>pre post. s = pre @ trim s @ post \<and> blank pre \<and> blank post"
proof -
  let ?t = "dropWhile is_space s"
  have "rev ?t = takeWhile is_space (rev ?t) @ dropWhile is_space (rev ?t)"
    by simp
  then have "rev (rev ?t) =
      rev (dropWhile is_space (rev ?t)) @ rev (takeWhile is_space (rev ?t))"
    by (metis rev_append)
  then have t: "?t = trim s @ rev (takeWhile is_space (rev ?t))"
    by (simp add: trim_def)
  have "s = takeWhile is_space s @ ?t"
    by simp
  with t have "s = takeWhile is_space s @ trim s @ rev (takeWhile is_space (rev ?t))"
    by simp
  moreover have "blank (takeWhile is_space s)"
    by (simp add: blank_def list_all_iff) (meson set_takeWhileD)
  moreover have "blank (rev (takeWhile is_space (rev ?t)))"
    by (simp add: blank_def list_all_iff) (meson set_takeWhileD)
  ultimately show ?thesis by blast
qed

text \<open>The white space beyond ASCII is stripped as well.\<close>

lemma trim_examples:
  "trim (lit ''  arroz'' @ [0xA0]) = lit ''arroz''"
  "trim (0xFEFF # lit ''colmado_william'' @ [0x2028]) = lit ''colmado_william''"
  "trim [0xA0] = []"
  "trim (lit ''detergente ace'') = lit ''detergente ace''"
  by (simp_all add: trim_def is_space_def lit_def)

lemma accepted_arroz: "accepted arroz_request"
  by (simp add: accepted_iff arroz_request_def body_of_def trim_def is_space_def
      slug_pattern_def slug_char_def lit_def)

lemma accepted_padded: "accepted padded_request"
  by (simp add: accepted_iff padded_request_def body_of_def trim_def is_space_def
      slug_pattern_def slug_char_def lit_def)

text \<open>A query that is a single no-break space is rejected, as an empty one is.\<close>

lemma blank_query_rejected:
  "\<not> accepted (arroz_request(''query'' := JString [0xA0]))"
  "\<not> accepted (arroz_request(''query'' := JString []))"
  by (simp_all add: accepted_iff trim_def is_space_def)

lemma digit_not_space: "is_digit c \<Longrightarrow> \<not> is_space c"
  by (auto simp add: is_digit_def is_space_def lit_def)

lemma digits_no_hex_prefix:
  assumes "list_all is_digit ds"
  shows "take 2 ds \<noteq> lit ''0x''" and "take 2 ds \<noteq> lit ''0X''"
proof -
  have x: "\<not> is_digit 120" "\<not> is_digit 88"
    by (simp_all add: is_digit_def lit_def)
  show "take 2 ds \<noteq> lit ''0x''"
  proof
    assume "take 2 ds = lit ''0x''"
    then have "120 \<in> set (take 2 ds)" by (simp add: lit_def)
    then have "120 \<in> set ds" by (rule in_set_takeD)
    with assms x show False by (simp add: list_all_iff)
  qed
  show "take 2 ds \<noteq> lit ''0X''"
  proof
    assume "take 2 ds = lit ''0X''"
    then have "88 \<in> set (take 2 ds)" by (simp add: lit_def)
    then have "88 \<in> set ds" by (rule in_set_takeD)
    with assms x show False by (simp add: list_all_iff)
  qed
qed

lemma parse_digits:
  assumes "ds \<noteq> []" and "list_all is_digit ds"
  shows "parseInt_string ds = to_number (int (digits_value ds))"
    and "parseInt_string (lit ''+'' @ ds) = to_number (int (digits_value ds))"
    and "parseInt_string (lit ''-'' @ ds) = to_number (- int (digits_value ds))"
proof -
  have all: "takeWhile is_digit ds = ds"
    using assms(2) by (simp add: takeWhile_eq_all_conv list_all_iff)
  have hd: "\<not> is_space (hd ds)"
    using assms by (cases ds) (simp_all add: digit_not_space)
  then have sp: "dropWhile is_space ds = ds"
    using assms(1) by (cases ds) simp_all
  have first: "take (Suc 0) ds \<noteq> lit ''-''" "take (Suc 0) ds \<noteq> lit ''+''"
    using assms by (cases ds; auto simp add: is_digit_def lit_def)+
  note hex = digits_no_hex_prefix [OF assms(2)]
  show "parseInt_string ds = to_number (int (digits_value ds))"
    using assms(1) by (simp add: parseInt_string_def Let_def sp first hex all)
  have sign: "\<not> is_space 43" "\<not> is_space 45"
    by (simp_all add: is_space_def)
  have plus: "lit ''+'' @ ds = 43 # ds" and minus: "lit ''-'' @ ds = 45 # ds"
    and signs: "lit ''+'' = [43]" "lit ''-'' = [45]"
    by (simp_all add: lit_def)
  show "parseInt_string (lit ''+'' @ ds) = to_number (int (digits_value ds))"
    unfolding plus using assms(1)
    by (simp add: parseInt_string_def Let_def sign signs hex all)
  show "parseInt_string (lit ''-'' @ ds) = to_number (- int (digits_value ds))"
    unfolding minus using assms(1)
    by (simp add: parseInt_string_def Let_def sign signs hex all)
qed

text \<open>
  On a string that the integer test accepts, \<open>parseInt\<close> gives the double nearest to the
  integer that the test compared with the bounds.
\<close>

lemma parseInt_int_literal:
  assumes "int_literal s = Some n"
  shows "parseInt_string s = to_number n"
proof (cases s)
  case Nil
  with assms show ?thesis by simp
next
  case (Cons c cs)
  show ?thesis
  proof (cases "[c] = lit ''-''")
    case True
    with assms Cons obtain m where m: "unsigned_literal cs = Some m" and n: "n = - m"
      by auto
    from m have "cs \<noteq> []" "list_all is_digit cs" "m = int (digits_value cs)"
      by (auto simp add: unsigned_literal_def split: if_splits)
    moreover have "s = lit ''-'' @ cs"
      using Cons True by simp
    ultimately show ?thesis
      using parse_digits(3) [of cs] n by simp
  next
    case minus: False
    show ?thesis
    proof (cases "[c] = lit ''+''")
      case True
      with minus assms Cons have m: "unsigned_literal cs = Some n"
        by simp
      then have "cs \<noteq> []" "list_all is_digit cs" "n = int (digits_value cs)"
        by (auto simp add: unsigned_literal_def split: if_splits)
      moreover have "s = lit ''+'' @ cs"
        using Cons True by simp
      ultimately show ?thesis
        using parse_digits(2) [of cs] by simp
    next
      case False
      with minus assms Cons have m: "unsigned_literal s = Some n"
        by simp
      then have "s \<noteq> []" "list_all is_digit s" "n = int (digits_value s)"
        by (auto simp add: unsigned_literal_def split: if_splits)
      then show ?thesis
        using parse_digits(1) [of s] by simp
    qed
  qed
qed

lemma toString_agree:
  assumes "int_literal (ev_toString v) = Some n"
  shows "js_ToString v = ev_toString v"
proof (cases v)
  case (JBool x)
  have "int_literal (lit ''true'') = None" "int_literal (lit ''false'') = None"
    by (simp_all add: unsigned_literal_def is_digit_def lit_def)
  with assms JBool show ?thesis by (cases x) simp_all
qed (use assms in simp_all)

lemma to_number_exact:
  assumes "\<bar>n\<bar> < 2 ^ 53"
  shows "to_number n = Num n"
proof -
  have "nat \<bar>n\<bar> < 2 ^ 53"
    using assms by (simp add: nat_less_iff)
  then show ?thesis
    by (simp add: to_number_def round_double_def)
qed

lemma to_number_nonnegative:
  assumes "0 \<le> n"
  shows "to_number n = PosInfinity \<or> (\<exists>k. to_number n = Num k \<and> 0 \<le> k)"
  using assms by (simp add: to_number_def split: option.split)

lemma parseInt_exact:
  assumes "int_literal s = Some n" and "\<bar>n\<bar> < 2 ^ 53"
  shows "parseInt (JString s) = Num n" and "parseInt (JNumber s) = Num n"
  using parseInt_int_literal [OF assms(1)] to_number_exact [OF assms(2)]
  by (simp_all add: parseInt_def)

lemma parseInt_defaults:
  "parseInt (JNumber (lit ''20'')) = Num 20" "parseInt (JNumber (lit ''0'')) = Num 0"
proof -
  have "int_literal (lit ''20'') = Some 20" "int_literal (lit ''0'') = Some 0"
    by (simp_all add: lit_def unsigned_literal_def is_digit_def digits_value_def digit_val_def)
  then show "parseInt (JNumber (lit ''20'')) = Num 20" "parseInt (JNumber (lit ''0'')) = Num 0"
    by (simp_all add: parseInt_exact)
qed

lemma bitlen_between:
  assumes "2 ^ k \<le> n" and "n < 2 ^ Suc k"
  shows "bitlen n = Suc k"
  using assms
proof (induction k arbitrary: n)
  case 0
  then have "n = Suc 0" by simp
  then show ?case by (simp add: bitlen.simps [of "Suc 0"] bitlen.simps [of 0])
next
  case (Suc k)
  then have "2 ^ k \<le> n div 2" and "n div 2 < 2 ^ Suc k"
    by simp_all
  then have "bitlen (n div 2) = Suc k"
    by (rule Suc.IH)
  moreover have "n \<noteq> 0"
  proof
    assume "n = 0"
    with Suc.prems(1) have "(2::nat) ^ Suc k \<le> 0" by simp
    then show False by simp
  qed
  ultimately show ?case
    by (simp add: bitlen.simps [of n])
qed

text \<open>
  Beyond \<open>2^53\<close> \<open>parseInt\<close> rounds: the offset \<open>9007199254740993\<close> reaches the engine as
  \<open>9007199254740992\<close>, and \<open>9007199254740995\<close> as \<open>9007199254740996\<close>.
\<close>

lemma round_double_examples:
  "round_double 9007199254740993 = Some 9007199254740992"
  "round_double 9007199254740995 = Some 9007199254740996"
proof -
  have "bitlen 9007199254740993 = 54" "bitlen 9007199254740995 = 54"
    by (simp_all add: bitlen_between [of 53])
  then show "round_double 9007199254740993 = Some 9007199254740992"
    "round_double 9007199254740995 = Some 9007199254740996"
    by (simp_all add: round_double_def Let_def)
qed

lemma parseInt_rounds:
  "parseInt (JString (lit ''9007199254740993'')) = Num 9007199254740992"
  "parseInt (JString (lit ''9007199254740995'')) = Num 9007199254740996"
proof -
  have "int_literal (lit ''9007199254740993'') = Some 9007199254740993"
    "int_literal (lit ''9007199254740995'') = Some 9007199254740995"
    by (simp_all add: lit_def unsigned_literal_def is_digit_def digits_value_def digit_val_def)
  then have "parseInt (JString (lit ''9007199254740993'')) = to_number 9007199254740993"
    "parseInt (JString (lit ''9007199254740995'')) = to_number 9007199254740995"
    by (simp_all add: parseInt_def parseInt_int_literal)
  then show "parseInt (JString (lit ''9007199254740993'')) = Num 9007199254740992"
    "parseInt (JString (lit ''9007199254740995'')) = Num 9007199254740996"
    by (simp_all add: to_number_def round_double_examples)
qed

text \<open>\<open>parseInt\<close> on strings that the integer test does not accept.\<close>

lemma parseInt_examples:
  "parseInt (JString (lit ''  +12abc'')) = Num 12"
  "parseInt (JString (lit ''0x1F'')) = Num 31"
  "parseInt (JNumber (lit ''1e+21'')) = Num 1"
  "parseInt (JNumber (lit ''2.5'')) = Num 2"
  "parseInt (JString (lit ''abc'')) = NaN"
  "parseInt JNull = NaN"
  by (simp_all add: parseInt_def parseInt_string_def Let_def lit_def is_space_def is_digit_def
      is_hex_digit_def hex_val_def digits_value_def digit_val_def to_number_def
      round_double_def)

text \<open>
  For an accepted request the controller passes to \<open>searchWithFallback\<close> a limit that is
  an integer from 1 to 100 and an offset that is a number not below zero: the
  submitted ones as \<open>parseInt\<close> reads them, or the defaults 20 and 0.
\<close>

lemma accepted_numbers:
  assumes "accepted b"
  shows "\<exists>n. parseInt (field_default (b ''limit'') ''20'') = Num n \<and> 1 \<le> n \<and> n \<le> 100"
    and "parseInt (field_default (b ''offset'') ''0'') = PosInfinity
         \<or> (\<exists>k. parseInt (field_default (b ''offset'') ''0'') = Num k \<and> 0 \<le> k)"
proof -
  note d = parseInt_defaults
  from assms have
    l: "b ''limit'' = JUndefined \<or>
        (\<exists>n. int_literal (ev_toString (b ''limit'')) = Some n \<and> 1 \<le> n \<and> n \<le> 100)" and
    r: "b ''offset'' = JUndefined \<or>
        (\<exists>n. int_literal (ev_toString (b ''offset'')) = Some n \<and> 0 \<le> n)"
    by (simp_all add: accepted_iff)
  show "\<exists>n. parseInt (field_default (b ''limit'') ''20'') = Num n \<and> 1 \<le> n \<and> n \<le> 100"
  proof (cases "b ''limit'' = JUndefined")
    case True
    then show ?thesis by (simp add: field_default_def d)
  next
    case False
    with l obtain n where n: "int_literal (ev_toString (b ''limit'')) = Some n"
      and bounds: "1 \<le> n" "n \<le> 100"
      by blast
    have "parseInt (b ''limit'') = to_number n"
      unfolding parseInt_def toString_agree [OF n] using n by (rule parseInt_int_literal)
    moreover have "to_number n = Num n"
      using bounds by (intro to_number_exact) simp
    ultimately show ?thesis
      using False bounds by (simp add: field_default_def)
  qed
  show "parseInt (field_default (b ''offset'') ''0'') = PosInfinity
         \<or> (\<exists>k. parseInt (field_default (b ''offset'') ''0'') = Num k \<and> 0 \<le> k)"
  proof (cases "b ''offset'' = JUndefined")
    case True
    then show ?thesis by (simp add: field_default_def d)
  next
    case False
    with r obtain k where k: "int_literal (ev_toString (b ''offset'')) = Some k"
      and bounds: "0 \<le> k"
      by blast
    have "parseInt (b ''offset'') = to_number k"
      unfolding parseInt_def toString_agree [OF k] using k by (rule parseInt_int_literal)
    with False to_number_nonnegative [OF bounds] show ?thesis
      by (simp add: field_default_def)
  qed
qed

text \<open>
  Claim C10. For an accepted request that submits the query \<open>q\<close> and the slug \<open>s\<close>, the
  controller calls \<open>searchWithFallback\<close> with the trimmed query and the trimmed slug: every
  engine call of the run carries the trimmed query, the tenant-specific index is named
  by the trimmed slug, and a returned result echoes the trimmed query. The trimmed form
  of a string is the string without the white space at its two ends: it neither begins
  nor ends with white space, and what was removed is white space.
\<close>

theorem accepted_request_is_trimmed:
  assumes "accepted b" and "b ''query'' = JString q" and "b ''slug'' = JString s"
  shows "search_route e w b =
           (case searchWithFallback e (engine w) (JString (trim q)) (JString (trim s))
                   (Some (parseInt (field_default (b ''limit'') ''20'')))
                   (Some (parseInt (field_default (b ''offset'') ''0''))) of
              (Inr result, evs) \<Rightarrow>
                (Inr \<lparr>res_status = 200, res_body = SearchData result\<rparr>,
                 Log Info ''Processing search request'' # evs)
            | (Inl err, evs) \<Rightarrow> (Inl err, Log Info ''Processing search request'' # evs))
       \<and> filter is_search (snd (search_route e w b)) =
           Search (LOCAL_INDEX_PREFIX e @ trim s) (JString (trim q))
             (parseInt (field_default (b ''limit'') ''20''))
             (parseInt (field_default (b ''offset'') ''0''))
           # (if no_local_hits (engine w (LOCAL_INDEX_PREFIX e @ trim s) (JString (trim q))
                   (parseInt (field_default (b ''limit'') ''20''))
                   (parseInt (field_default (b ''offset'') ''0'')))
              then [Search (GLOBAL_INDEX e) (JString (trim q))
                      (parseInt (field_default (b ''limit'') ''20''))
                      (parseInt (field_default (b ''offset'') ''0''))]
              else [])
       \<and> (case fst (search_route e w b) of
             Inr res \<Rightarrow>
               (case res_body res of
                  SearchData r \<Rightarrow>
                    query r = JString (trim q) \<and>
                    indexName r = (case source r of
                                     Local \<Rightarrow> LOCAL_INDEX_PREFIX e @ trim s
                                   | Global \<Rightarrow> GLOBAL_INDEX e)
                | _ \<Rightarrow> False)
           | Inl err \<Rightarrow> True)
       \<and> trimmed (trim q) \<and> trimmed (trim s)
       \<and> (\<exists>pre post. q = pre @ trim q @ post \<and> blank pre \<and> blank post)
       \<and> (\<exists>pre post. s = pre @ trim s @ post \<and> blank pre \<and> blank post)"
proof -
  have san: "sanitized b ''query'' = JString (trim q)" "sanitized b ''slug'' = JString (trim s)"
    "sanitized b ''limit'' = b ''limit''" "sanitized b ''offset'' = b ''offset''"
    using assms(2,3) by (simp_all add: sanitized_def)
  have route: "search_route e w b = search e (engine w) (sanitized b)"
    using assms(1) by (rule accepted_request)
  have one: "search_route e w b =
           (case searchWithFallback e (engine w) (JString (trim q)) (JString (trim s))
                   (Some (parseInt (field_default (b ''limit'') ''20'')))
                   (Some (parseInt (field_default (b ''offset'') ''0''))) of
              (Inr result, evs) \<Rightarrow>
                (Inr \<lparr>res_status = 200, res_body = SearchData result\<rparr>,
                 Log Info ''Processing search request'' # evs)
            | (Inl err, evs) \<Rightarrow> (Inl err, Log Info ''Processing search request'' # evs))"
    unfolding route by (simp add: search_def san)
  have two: "filter is_search (snd (search_route e w b)) =
           Search (LOCAL_INDEX_PREFIX e @ trim s) (JString (trim q))
             (parseInt (field_default (b ''limit'') ''20''))
             (parseInt (field_default (b ''offset'') ''0''))
           # (if no_local_hits (engine w (LOCAL_INDEX_PREFIX e @ trim s) (JString (trim q))
                   (parseInt (field_default (b ''limit'') ''20''))
                   (parseInt (field_default (b ''offset'') ''0'')))
              then [Search (GLOBAL_INDEX e) (JString (trim q))
                      (parseInt (field_default (b ''limit'') ''20''))
                      (parseInt (field_default (b ''offset'') ''0''))]
              else [])"
    unfolding route search_snd san
    by (simp add: searchWithFallback_searches param_default_def)
  have three: "(case fst (search_route e w b) of
             Inr res \<Rightarrow>
               (case res_body res of
                  SearchData r \<Rightarrow>
                    query r = JString (trim q) \<and>
                    indexName r = (case source r of
                                     Local \<Rightarrow> LOCAL_INDEX_PREFIX e @ trim s
                                   | Global \<Rightarrow> GLOBAL_INDEX e)
                | _ \<Rightarrow> False)
           | Inl err \<Rightarrow> True)"
    unfolding route search_fst san
    by (simp add: searchWithFallback_fst global_step_fst build_result_def
        split: sum.split thrown.split)
  from one two three trim_trimmed [of q] trim_trimmed [of s]
    trim_decomposition [of q] trim_decomposition [of s]
  show ?thesis by blast
qed

text \<open>
  The request whose query is \<open>arroz\<close> after two spaces and before a no-break space, and
  whose slug is \<open>colmado_william\<close> between a byte order mark and a line separator, is
  accepted, searched as \<open>arroz\<close> in \<open>productos_colmado_colmado_william\<close> and echoed without
  the white space.
\<close>

theorem accepted_request_is_trimmed_witness:
  "accepted padded_request
   \<and> padded_request ''query'' = JString (lit ''  arroz'' @ [0xA0])
   \<and> padded_request ''slug'' = JString (0xFEFF # lit ''colmado_william'' @ [0x2028])
   \<and> search_route default_env store_world padded_request =
       (Inr \<lparr>res_status = 200,
             res_body = SearchData
               \<lparr>source = Local, indexName = lit ''productos_colmado_colmado_william'',
                hits = [''Arroz Graneado''], total_hits = 1, query = JString (lit ''arroz''),
                limit = Num 20, offset = Num 0, processingTimeMs = 12\<rparr>\<rparr>,
        [Log Info ''Processing search request'', Log Info ''Search request'',
         Search (lit ''productos_colmado_colmado_william'') (JString (lit ''arroz''))
           (Num 20) (Num 0),
         Log Info ''Local search completed''])"
proof -
  have q: "padded_request ''query'' = JString (lit ''  arroz'' @ [0xA0])"
    and s: "padded_request ''slug'' = JString (0xFEFF # lit ''colmado_william'' @ [0x2028])"
    and l: "padded_request ''limit'' = JUndefined"
    and r: "padded_request ''offset'' = JUndefined"
    by (simp_all add: padded_request_def body_of_def)
  note t = trim_examples(1,2)
  note p = parseInt_defaults
  from accepted_request_is_trimmed [OF accepted_padded q s, of default_env store_world]
  have "search_route default_env store_world padded_request =
      (case searchWithFallback default_env (engine store_world) (JString (lit ''arroz''))
              (JString (lit ''colmado_william''))
              (Some (parseInt (field_default (padded_request ''limit'') ''20'')))
              (Some (parseInt (field_default (padded_request ''offset'') ''0''))) of
         (Inr result, evs) \<Rightarrow>
           (Inr \<lparr>res_status = 200, res_body = SearchData result\<rparr>,
            Log Info ''Processing search request'' # evs)
       | (Inl err, evs) \<Rightarrow> (Inl err, Log Info ''Processing search request'' # evs))"
    unfolding t by blast
  then show ?thesis
    using accepted_padded q s
    by (simp add: l r p field_default_def searchWithFallback_def Let_def default_prefix
        param_default_def store_world_def store_engine_def build_result_def total_of_def
        js_or_def)
qed

section \<open>Properties of the HTTP front door\<close>

lemma lower_path_routes:
  "lower_path [''api'', ''v1''] = [''api'', ''v1'']"
  "lower_path [''health''] = [''health'']"
  "lower_path [''search''] = [''search'']"
  "lower_path [] = []"
  by (simp_all add: lower_path_def lower_char_def)

lemma mount_api_v1:
  "mount [''api'', ''v1''] router (''api'' # ''v1'' # rest) = router rest"
  by (simp add: mount_def lower_path_routes)

lemma mount_health:
  "mount [''health''] router (''health'' # rest) = router rest"
  by (simp add: mount_def lower_path_routes)

text \<open>The three validation boundaries of the specification, as numbers and as strings.\<close>

lemma validation_boundaries:
  "accepted (arroz_request(''limit'' := JNumber (lit ''1'')))"
  "accepted (arroz_request(''limit'' := JNumber (lit ''100'')))"
  "\<not> accepted (arroz_request(''limit'' := JNumber (lit ''0'')))"
  "\<not> accepted (arroz_request(''limit'' := JNumber (lit ''101'')))"
  "accepted (arroz_request(''offset'' := JNumber (lit ''0'')))"
  "\<not> accepted (arroz_request(''offset'' := JNumber (lit ''-1'')))"
  "accepted (arroz_request(''limit'' := JString (lit ''100''), ''offset'' := JString (lit ''0'')))"
  "\<not> accepted (arroz_request(''limit'' := JString (lit ''101'')))"
  "\<not> accepted (arroz_request(''offset'' := JString (lit ''-1'')))"
  by (simp_all add: accepted_iff arroz_request_def body_of_def trim_def is_space_def
      slug_pattern_def slug_char_def lit_def unsigned_literal_def is_digit_def
      digits_value_def digit_val_def)

text \<open>
  Numbers that are printed with a fraction or an exponent are not integers for the
  validator, and neither are \<open>null\<close> and the booleans.
\<close>

lemma validation_of_other_values:
  "\<not> accepted (arroz_request(''limit'' := JNumber (lit ''2.5'')))"
  "\<not> accepted (arroz_request(''offset'' := JNumber (lit ''1e+21'')))"
  "\<not> accepted (arroz_request(''limit'' := JNull))"
  "\<not> accepted (arroz_request(''offset'' := JBool True))"
  "\<not> accepted (arroz_request(''query'' := JNumber (lit ''5'')))"
  by (simp_all add: accepted_iff arroz_request_def body_of_def trim_def is_space_def
      slug_pattern_def slug_char_def lit_def unsigned_literal_def is_digit_def
      digits_value_def digit_val_def)

text \<open>
  Claim C5, at the request \<open>{query: "arroz"}\<close> that has no slug: the answer is 400 and
  no engine call is issued, but the one violated field \<open>slug\<close> comes with three entries,
  one for each validator of its chain (\<open>isString\<close>, \<open>notEmpty\<close>, \<open>matches\<close>), not with one.
\<close>

theorem missing_slug_three_entries:
  "app e w \<lparr>req_method = POST, req_path = [''api'', ''v1'', ''search''],
            req_body = Parsed missing_slug_request\<rparr> =
     (\<lparr>res_status = 400,
       res_body = ValidationErrors
         [(''slug'', ''Invalid value''),
          (''slug'', ''Slug is required and must be a non-empty string''),
          (''slug'',
           ''Slug must contain only lowercase letters, numbers, hyphens and underscores'')]\<rparr>,
      [Log Info ''Incoming request''])"
proof -
  have errs: "query_errors missing_slug_request @ slug_errors missing_slug_request @
      limit_errors missing_slug_request @ offset_errors missing_slug_request =
      [(''slug'', ''Invalid value''),
       (''slug'', ''Slug is required and must be a non-empty string''),
       (''slug'',
        ''Slug must contain only lowercase letters, numbers, hyphens and underscores'')]"
    by (simp add: query_errors_def slug_errors_def limit_errors_def offset_errors_def
        missing_slug_request_def body_of_def is_string_def trim_def is_space_def
        slug_pattern_def lit_def)
  have "\<not> accepted missing_slug_request"
    by (simp add: accepted_iff missing_slug_request_def body_of_def)
  from rejected_request [OF this, of e w] show ?thesis
    unfolding errs
    by (simp add: app_def Let_def mount_api_v1 routes_def lower_path_routes)
qed

lemma healthCheck_fst:
  "fst (healthCheck out) =
     (case out of
        Inr h \<Rightarrow> Inr (Healthy h)
      | Inl error \<Rightarrow>
          (case error of
             Thrown_error err \<Rightarrow> Inr (Unhealthy (message err))
           | Thrown_nullish v \<Rightarrow> Inl (type_error v ''message'')))"
  by (simp add: healthCheck_def split: sum.split thrown.split)

text \<open>
  The answers of the health handler: 200 with the healthy report when the engine's
  health call returns, 503 with the unhealthy report and the error's message when it
  throws an error.
\<close>

lemma health_responses:
  "fst (health (Inr h) t) =
     \<lparr>res_status = 200, res_body = HealthReport True ''search-service'' t (Healthy h)\<rparr>"
  "fst (health (Inl (Thrown_error err)) t) =
     \<lparr>res_status = 503,
      res_body = HealthReport False ''search-service'' t (Unhealthy (message err))\<rparr>"
  by (simp_all add: health_def healthCheck_def)

text \<open>
  Claim C6, at the request \<open>GET /health\<close>: the router mounted at \<open>/health\<close> sees the empty
  path, which is none of its routes, and the request ends in the 404 handler. The health
  handler answers \<open>GET /api/v1/health\<close> and, through the second mount, \<open>GET /health/health\<close>.
\<close>

theorem health_alias_not_found:
  "app e w \<lparr>req_method = GET, req_path = [''health''], req_body = Parsed b\<rparr> =
     (\<lparr>res_status = 404, res_body = RouteNotFound [''health'']\<rparr>,
      [Log Info ''Incoming request'', Log Warn ''404 Not Found''])
   \<and> fst (app e w \<lparr>req_method = GET, req_path = [''api'', ''v1'', ''health''],
                    req_body = Parsed b\<rparr>) =
       fst (health (engine_health w) (now w))
   \<and> fst (app e w \<lparr>req_method = GET, req_path = [''health'', ''health''],
                    req_body = Parsed b\<rparr>) =
       fst (health (engine_health w) (now w))"
  by (simp add: app_def Let_def mount_def routes_def lower_path_routes notFoundHandler_def
      split: prod.split)

text \<open>The same holds however the path is capitalised.\<close>

lemma health_alias_in_capitals:
  "fst (app e w \<lparr>req_method = GET, req_path = [''Health''], req_body = Parsed b\<rparr>) =
     \<lparr>res_status = 404, res_body = RouteNotFound [''Health'']\<rparr>"
  "fst (app e w \<lparr>req_method = GET, req_path = [''API'', ''V1'', ''Health''],
                  req_body = Parsed b\<rparr>) =
     fst (health (engine_health w) (now w))"
  by (simp_all add: app_def Let_def mount_def routes_def lower_path_def lower_char_def
      notFoundHandler_def split: prod.split)




text \<open>
  An error that the search route passes on is answered by \<open>errorHandler\<close>; it has no
  status of its own.
\<close>

lemma search_failure_reaches_errorHandler:
  assumes "fst (search_route e w b) = Inl err"
  shows "fst (app e w \<lparr>req_method = POST, req_path = [''api'', ''v1'', ''search''],
                      req_body = Parsed b\<rparr>) = fst (errorHandler e (without_status err))"
  using assms
  by (cases "search_route e w b")
    (simp add: app_def Let_def mount_api_v1 routes_def lower_path_routes split: prod.split)

lemma errorHandler_without_status:
  "fst (errorHandler e (without_status err)) =
     \<lparr>res_status = 500,
      res_body =
        (if e ''NODE_ENV'' = Some (lit ''production'')
         then ErrorBody ''Internal server error'' None
         else ErrorBody (message err) (Some (stack err)))\<rparr>"
  by (simp add: errorHandler_def without_status_def js_or_def sends_body_def production_def)

text \<open>
  Claim C7, as stated, fails on a request whose body is not well-formed JSON: the
  error of the body parser carries the status 400, and the handler answers with that
  status, not with 500 (the body is the generic one).
\<close>

theorem malformed_body_status_counterexample:
  "app production_env store_world
       \<lparr>req_method = POST, req_path = [''api'', ''v1'', ''search''],
        req_body = Unparsed malformed_json\<rparr> =
     (\<lparr>res_status = 400, res_body = ErrorBody ''Internal server error'' None\<rparr>,
      [Log Error ''Error processing request''])
   \<and> res_status (fst (app production_env store_world
       \<lparr>req_method = POST, req_path = [''api'', ''v1'', ''search''],
        req_body = Unparsed malformed_json\<rparr>)) \<noteq> 500"
  by (simp add: app_def errorHandler_def malformed_json_def js_or_def sends_body_def
      production_def production_env_def)

text \<open>
  Claim C7, amended. Every failure that the search route passes on, so every failure
  of the global-index call, is answered with status 500. Any other error that reaches the
  handler, such as the one of the body parser, is answered with the error's own
  \<open>statusCode\<close> when that is set and not zero, else with its \<open>status\<close> when that is set and
  not zero, and with 500 otherwise; a code outside 100 to 999 cannot be sent, and the
  answer is then the framework's own 500 page. In production the body holds the generic
  message alone, whatever the error; outside production it holds the error's message and
  stack. With a status that carries no body (below 200, 204, 205, 304) none is sent.
\<close>

theorem errorHandler_response:
  "(fst (search_route e w b) = Inl err \<longrightarrow>
      fst (app e w \<lparr>req_method = POST, req_path = [''api'', ''v1'', ''search''],
                     req_body = Parsed b\<rparr>) =
        \<lparr>res_status = 500,
         res_body =
           (if e ''NODE_ENV'' = Some (lit ''production'')
            then ErrorBody ''Internal server error'' None
            else ErrorBody (message err) (Some (stack err)))\<rparr>)
   \<and> app e w \<lparr>req_method = m, req_path = p, req_body = Unparsed x\<rparr> = errorHandler e x
   \<and> fst (errorHandler e x :: (jsvalue, 'h) response \<times> jsvalue event list) =
       (let code =
              (case statusCode x of
                 Some n \<Rightarrow>
                   if n \<noteq> 0 then n
                   else (case status x of Some k \<Rightarrow> if k \<noteq> 0 then k else 500 | None \<Rightarrow> 500)
               | None \<Rightarrow> (case status x of Some k \<Rightarrow> if k \<noteq> 0 then k else 500 | None \<Rightarrow> 500))
        in if code < 100 \<or> 999 < code
           then \<lparr>res_status = 500, res_body = DefaultErrorPage\<rparr>
           else \<lparr>res_status = code,
                 res_body =
                   (if code < 200 \<or> code = 204 \<or> code = 205 \<or> code = 304 then NoBody
                    else if e ''NODE_ENV'' = Some (lit ''production'')
                    then ErrorBody ''Internal server error'' None
                    else ErrorBody (message x) (Some (stack x)))\<rparr>)"
proof -
  have a: "fst (search_route e w b) = Inl err \<longrightarrow>
      fst (app e w \<lparr>req_method = POST, req_path = [''api'', ''v1'', ''search''],
                     req_body = Parsed b\<rparr>) =
        \<lparr>res_status = 500,
         res_body =
           (if e ''NODE_ENV'' = Some (lit ''production'')
            then ErrorBody ''Internal server error'' None
            else ErrorBody (message err) (Some (stack err)))\<rparr>"
    by (simp add: search_failure_reaches_errorHandler errorHandler_without_status)
  have b: "app e w \<lparr>req_method = m, req_path = p, req_body = Unparsed x\<rparr> = errorHandler e x"
    by (simp add: app_def)
  have c: "fst (errorHandler e x :: (jsvalue, 'h) response \<times> jsvalue event list) =
       (let code =
              (case statusCode x of
                 Some n \<Rightarrow>
                   if n \<noteq> 0 then n
                   else (case status x of Some k \<Rightarrow> if k \<noteq> 0 then k else 500 | None \<Rightarrow> 500)
               | None \<Rightarrow> (case status x of Some k \<Rightarrow> if k \<noteq> 0 then k else 500 | None \<Rightarrow> 500))
        in if code < 100 \<or> 999 < code
           then \<lparr>res_status = 500, res_body = DefaultErrorPage\<rparr>
           else \<lparr>res_status = code,
                 res_body =
                   (if code < 200 \<or> code = 204 \<or> code = 205 \<or> code = 304 then NoBody
                    else if e ''NODE_ENV'' = Some (lit ''production'')
                    then ErrorBody ''Internal server error'' None
                    else ErrorBody (message x) (Some (stack x)))\<rparr>)"
    by (auto simp add: errorHandler_def js_or_def sends_body_def production_def Let_def
        split: option.split)
  from a b c show ?thesis by blast
qed

text \<open>
  A search against an engine that cannot be reached: the failure of the global call
  is answered with 500, with the generic body in production and with the error's message
  and stack outside production.
\<close>

theorem errorHandler_response_witness:
  "fst (search_route production_env down_world arroz_request) = Inl connection_refused
   \<and> fst (app production_env down_world
          \<lparr>req_method = POST, req_path = [''api'', ''v1'', ''search''],
           req_body = Parsed arroz_request\<rparr>) =
       \<lparr>res_status = 500, res_body = ErrorBody ''Internal server error'' None\<rparr>
   \<and> fst (search_route default_env down_world arroz_request) = Inl connection_refused
   \<and> fst (app default_env down_world
          \<lparr>req_method = POST, req_path = [''api'', ''v1'', ''search''],
           req_body = Parsed arroz_request\<rparr>) =
       \<lparr>res_status = 500,
        res_body = ErrorBody ''request failed, reason: connect ECONNREFUSED''
          (Some ''MeiliSearchCommunicationError: request failed'')\<rparr>"
proof -
  have fail: "fst (search_route e down_world arroz_request) = Inl connection_refused" for e
    unfolding accepted_request [OF accepted_arroz] search_fst
    by (simp add: searchWithFallback_fst global_step_fst down_world_def down_engine_def)
  have p: "fst (search_route production_env down_world arroz_request) = Inl connection_refused
      \<longrightarrow> fst (app production_env down_world
          \<lparr>req_method = POST, req_path = [''api'', ''v1'', ''search''],
           req_body = Parsed arroz_request\<rparr>) =
        \<lparr>res_status = 500,
         res_body =
           (if production_env ''NODE_ENV'' = Some (lit ''production'')
            then ErrorBody ''Internal server error'' None
            else ErrorBody (message connection_refused) (Some (stack connection_refused)))\<rparr>"
    using errorHandler_response
      [where 'h = string, of production_env down_world arroz_request connection_refused]
    by blast
  have d: "fst (search_route default_env down_world arroz_request) = Inl connection_refused
      \<longrightarrow> fst (app default_env down_world
          \<lparr>req_method = POST, req_path = [''api'', ''v1'', ''search''],
           req_body = Parsed arroz_request\<rparr>) =
        \<lparr>res_status = 500,
         res_body =
           (if default_env ''NODE_ENV'' = Some (lit ''production'')
            then ErrorBody ''Internal server error'' None
            else ErrorBody (message connection_refused) (Some (stack connection_refused)))\<rparr>"
    using errorHandler_response
      [where 'h = string, of default_env down_world arroz_request connection_refused]
    by blast
  from p d fail show ?thesis
    by (simp add: connection_refused_def production_env_def default_env_def)
qed

end
